theory Spec2Isabelle
  imports Complex_Main "HOL-Library.AList"
begin

section \<open>Numbers\<close>

text \<open>
  The TypeScript sources compute with JavaScript numbers, which are IEEE 754 binary64
  values.  A finite number is modelled as the \<^typ>\<open>real\<close> it denotes, and every arithmetic
  operation of the sources rounds its exact result to the nearest binary64 value, ties
  to the even significand: \<open>fl\<close>.  A decimal literal of the sources that is not a
  binary fraction, such as \<^verbatim>\<open>0.2\<close>, is the rounded value as well.  Comparisons, \<^verbatim>\<open>Math.max\<close>,
  \<^verbatim>\<open>Math.min\<close> and \<^verbatim>\<open>Math.abs\<close> are exact.  Results beyond the largest binary64 value,
  which JavaScript turns into \<^verbatim>\<open>Infinity\<close>, are not modelled: pointer coordinates and
  clock values are far below it.  \<^verbatim>\<open>Math.pow(a, 2)\<close> is taken to be the rounded square.

  The one place where the sources divide by a value that can be zero without testing it
  first is \<^verbatim>\<open>pathLength / recordingDuration\<close> in \<^verbatim>\<open>attachAudioData\<close>; JavaScript
  does not raise there but yields \<^verbatim>\<open>Infinity\<close>, \<^verbatim>\<open>-Infinity\<close> or \<^verbatim>\<open>NaN\<close>, so the result
  of that division is a \<open>jsnum\<close>.  Every other division of the modelled code is guarded
  by a test of the divisor or has a constant divisor.
\<close>

definition round_half_even :: "real \<Rightarrow> int" where
  "round_half_even y =
     (let f = \<lfloor>y\<rfloor>
      in if y - of_int f < 1 / 2 then f
         else if y - of_int f > 1 / 2 then f + 1
         else if even f then f else f + 1)"

text \<open>
  Rounding to binary64: the significand has 53 bits, and the exponent of the last bit
  is not below -1074 (the subnormal numbers).
\<close>

definition fl :: "real \<Rightarrow> real" where
  "fl x =
     (if x = 0 then 0
      else (let e = max \<lfloor>log 2 \<bar>x\<bar>\<rfloor> (- 1022) - 52
            in of_int (round_half_even (x / 2 powr of_int e)) * 2 powr of_int e))"

datatype jsnum = Num real | PosInf | NegInf | NaN

definition js_div :: "real \<Rightarrow> real \<Rightarrow> jsnum" where
  "js_div a b =
     (if b = 0 then (if a = 0 then NaN else if 0 < a then PosInf else NegInf)
      else Num (fl (a / b)))"

text \<open>The counter of the template literal \<^verbatim>\<open>`path-${n}`\<close>, in decimal.\<close>

definition digit_char :: "nat \<Rightarrow> char" where
  "digit_char d = char_of (48 + d)"

function string_of_nat :: "nat \<Rightarrow> string" where
  "string_of_nat n =
     (if n < 10 then [digit_char n]
      else string_of_nat (n div 10) @ [digit_char (n mod 10)])"
  by pat_completeness auto
termination
  by (relation "measure (\<lambda>n. n)") auto

declare string_of_nat.simps [simp del]

text \<open>Reading a decimal numeral back; used only to show that the rendering is injective.\<close>

definition nat_of_string :: "string \<Rightarrow> nat" where
  "nat_of_string cs = foldl (\<lambda>a c. 10 * a + (of_char c - 48)) 0 cs"

section \<open>Data model (utils/types.ts)\<close>

text \<open>
  The interfaces \<^verbatim>\<open>Point\<close> and \<^verbatim>\<open>Rectangle\<close> both have fields \<^verbatim>\<open>x\<close> and \<^verbatim>\<open>y\<close>; they are
  \<open>px\<close>, \<open>py\<close> for a point and \<open>bx\<close>, \<open>by\<close> for a box here.  \<^verbatim>\<open>PathPoint\<close> extends
  \<^verbatim>\<open>Point\<close> with nothing, so it is the same record.  The field \<^verbatim>\<open>id\<close> of a path is
  \<open>path_id\<close>.
\<close>

record Point =
  px :: real
  py :: real
  timestamp :: real
  pressure :: "real option"

record Rectangle =
  bx :: real
  "by" :: real
  width :: real
  height :: real

record PathStyle =
  strokeWidth :: real
  strokeColor :: string
  glowIntensity :: real

type_synonym ArrayBuffer = "nat list"

datatype AudioFormat = Webm | Mp3

record AudioMetadata =
  recordedAt :: real
  originalSpeed :: jsnum

record AudioData =
  buffer :: ArrayBuffer
  format :: AudioFormat
  sampleRate :: real
  duration :: real
  metadata :: AudioMetadata

record AudioPath =
  path_id :: string
  points :: "Point list"
  audioData :: "AudioData option"
  style :: PathStyle
  boundingBox :: Rectangle
  createdAt :: real

section \<open>The Path Store (core/PathManager.ts)\<close>

text \<open>
  \<^verbatim>\<open>paths\<close> is a JavaScript \<^verbatim>\<open>Map\<close>, which iterates in insertion order: an association
  list, where \<^const>\<open>AList.update\<close> replaces the value of a present key in place and
  appends an absent one, as \<^verbatim>\<open>Map.set\<close> does.  The path objects are mutated in place by
  the sources; the model writes the changed path back under its key.  The clock reads
  \<^verbatim>\<open>performance.now()\<close> and \<^verbatim>\<open>Date.now()\<close> are parameters.
\<close>

record PathManager =
  paths :: "(string \<times> AudioPath) list"
  activePaths :: "string set"
  pathCounter :: nat

definition newPathManager :: PathManager where
  "newPathManager = \<lparr>paths = [], activePaths = {}, pathCounter = 0\<rparr>"

definition getDefaultStyle :: PathStyle where
  "getDefaultStyle = \<lparr>strokeWidth = 3, strokeColor = ''#ffffff'', glowIntensity = 1 / 2\<rparr>"

definition createBoundingBox :: "Point \<Rightarrow> Rectangle" where
  "createBoundingBox point = \<lparr>bx = px point, by = py point, width = 0, height = 0\<rparr>"

definition startRecording :: "PathManager \<Rightarrow> Point \<Rightarrow> real \<Rightarrow> real \<Rightarrow> string \<times> PathManager" where
  "startRecording pm point now dateNow =
     (let counter = pathCounter pm + 1;
          pathId = ''path-'' @ string_of_nat counter;
          pathPoint = point\<lparr>timestamp := now\<rparr>;
          newPath = \<lparr>path_id = pathId, points = [pathPoint], audioData = None,
                     style = getDefaultStyle, boundingBox = createBoundingBox pathPoint,
                     createdAt = dateNow\<rparr>
      in (pathId, pm\<lparr>paths := AList.update pathId newPath (paths pm),
                      activePaths := insert pathId (activePaths pm),
                      pathCounter := counter\<rparr>))"

definition updateBoundingBox :: "Rectangle \<Rightarrow> Point \<Rightarrow> Rectangle" where
  "updateBoundingBox box point =
     (let box1 =
            (if px point < bx box
               then box\<lparr>width := fl (width box + fl (bx box - px point)), bx := px point\<rparr>
             else if px point > fl (bx box + width box)
               then box\<lparr>width := fl (px point - bx box)\<rparr>
             else box)
      in if py point < by box1
           then box1\<lparr>height := fl (height box1 + fl (by box1 - py point)), by := py point\<rparr>
         else if py point > fl (by box1 + height box1)
           then box1\<lparr>height := fl (py point - by box1)\<rparr>
         else box1)"

definition addPoint :: "PathManager \<Rightarrow> string \<Rightarrow> Point \<Rightarrow> real \<Rightarrow> PathManager" where
  "addPoint pm pathId point now =
     (case map_of (paths pm) pathId of
        None \<Rightarrow> pm
      | Some path \<Rightarrow>
          (let pathPoint = point\<lparr>timestamp := now\<rparr>;
               path' = path\<lparr>points := points path @ [pathPoint],
                            boundingBox := updateBoundingBox (boundingBox path) pathPoint\<rparr>
           in pm\<lparr>paths := AList.update pathId path' (paths pm)\<rparr>))"

definition endRecording :: "PathManager \<Rightarrow> string \<Rightarrow> PathManager" where
  "endRecording pm pathId = pm\<lparr>activePaths := activePaths pm - {pathId}\<rparr>"

definition getPath :: "PathManager \<Rightarrow> string \<Rightarrow> AudioPath option" where
  "getPath pm pathId = map_of (paths pm) pathId"

definition deletePath :: "PathManager \<Rightarrow> string \<Rightarrow> PathManager" where
  "deletePath pm pathId =
     pm\<lparr>paths := AList.delete pathId (paths pm), activePaths := activePaths pm - {pathId}\<rparr>"

definition clearAllPaths :: "PathManager \<Rightarrow> PathManager" where
  "clearAllPaths pm = pm\<lparr>paths := [], activePaths := {}, pathCounter := 0\<rparr>"

definition distanceToPoint :: "Point \<Rightarrow> Point \<Rightarrow> real" where
  "distanceToPoint p1 p2 =
     (let dx = fl (px p1 - px p2); dy = fl (py p1 - py p2)
      in fl (sqrt (fl (fl (dx * dx) + fl (dy * dy)))))"

text \<open>The loop of \<^verbatim>\<open>calculatePathLength\<close>, over the pairs of consecutive points.\<close>

fun pathLength_loop :: "real \<Rightarrow> Point list \<Rightarrow> real" where
  "pathLength_loop len (prev # cur # rest) =
     (let dx = fl (px cur - px prev); dy = fl (py cur - py prev)
      in pathLength_loop (fl (len + fl (sqrt (fl (fl (dx * dx) + fl (dy * dy))))))
           (cur # rest))"
| "pathLength_loop len [p] = len"
| "pathLength_loop len [] = len"

definition calculatePathLength :: "AudioPath \<Rightarrow> real" where
  "calculatePathLength path = pathLength_loop 0 (points path)"

definition getRecordingDuration :: "AudioPath \<Rightarrow> real" where
  "getRecordingDuration path =
     (if length (points path) < 2 then 0
      else fl (timestamp (last (points path)) - timestamp (hd (points path))))"

definition attachAudioData :: "PathManager \<Rightarrow> string \<Rightarrow> ArrayBuffer \<Rightarrow> PathManager" where
  "attachAudioData pm pathId audio =
     (case map_of (paths pm) pathId of
        None \<Rightarrow> pm
      | Some path \<Rightarrow>
          (let pathLength = calculatePathLength path;
               recordingDuration = getRecordingDuration path;
               speed = js_div pathLength recordingDuration;
               path' = path\<lparr>audioData := Some
                         \<lparr>buffer = audio, format = Webm, sampleRate = 44100,
                          duration = fl (recordingDuration / 1000),
                          metadata = \<lparr>recordedAt = createdAt path, originalSpeed = speed\<rparr>\<rparr>\<rparr>
           in pm\<lparr>paths := AList.update pathId path' (paths pm)\<rparr>))"

text \<open>
  Geometric queries.  A path of the store always has a first point, but the type allows
  an empty point list: there \<^verbatim>\<open>path.points[0]\<close> is \<^verbatim>\<open>undefined\<close> and reading its \<^verbatim>\<open>x\<close>
  raises a \<^verbatim>\<open>TypeError\<close>.
\<close>

datatype error = TypeError

record NearestResult =
  res_point :: Point
  progress :: real

definition closestPointOnLineSegment :: "Point \<Rightarrow> Point \<Rightarrow> Point \<Rightarrow> real \<Rightarrow> Point" where
  "closestPointOnLineSegment point lineStart lineEnd now =
     (let A = fl (px point - px lineStart);
          B = fl (py point - py lineStart);
          C = fl (px lineEnd - px lineStart);
          D = fl (py lineEnd - py lineStart);
          dot = fl (fl (A * C) + fl (B * D));
          lenSq = fl (fl (C * C) + fl (D * D))
      in if lenSq = 0 then lineStart
         else (let param0 = fl (dot / lenSq);
                   param1 = (if param0 < 0 then 0 else param0);
                   param = (if param1 > 1 then 1 else param1)
               in \<lparr>px = fl (px lineStart + fl (param * C)),
                   py = fl (py lineStart + fl (param * D)),
                   timestamp = now, pressure = None\<rparr>))"

text \<open>
  The loop of \<^verbatim>\<open>findNearestPointOnPath\<close>; its state is
  \<open>(nearestPoint, minDistance, nearestProgress, accumulatedLength)\<close>.
\<close>

fun nearest_loop ::
  "Point \<Rightarrow> real \<Rightarrow> real \<Rightarrow> Point list \<Rightarrow> Point \<times> real \<times> real \<times> real \<Rightarrow> Point \<times> real \<times> real \<times> real"
where
  "nearest_loop clickPoint now totalLength (p1 # p2 # rest)
       (nearestPoint, minDistance, nearestProgress, accumulatedLength) =
     (let closestPoint = closestPointOnLineSegment clickPoint p1 p2 now;
          distance = distanceToPoint clickPoint closestPoint;
          accumulatedLength' = fl (accumulatedLength + distanceToPoint p1 p2)
      in if distance < minDistance
         then (let segmentLength = distanceToPoint p1 p2;
                   pointToSegmentStart = distanceToPoint p1 closestPoint;
                   progressInSegment =
                     (if segmentLength > 0 then fl (pointToSegmentStart / segmentLength)
                      else 0);
                   nearestProgress' =
                     (if totalLength > 0
                      then fl (fl (accumulatedLength + fl (progressInSegment * segmentLength)) /
                               totalLength)
                      else 0)
               in nearest_loop clickPoint now totalLength (p2 # rest)
                    (closestPoint, distance, nearestProgress', accumulatedLength'))
         else nearest_loop clickPoint now totalLength (p2 # rest)
                (nearestPoint, minDistance, nearestProgress, accumulatedLength'))"
| "nearest_loop clickPoint now totalLength [p] st = st"
| "nearest_loop clickPoint now totalLength [] st = st"

definition findNearestPointOnPath ::
  "PathManager \<Rightarrow> Point \<Rightarrow> string \<Rightarrow> real \<Rightarrow> error + NearestResult option"
where
  "findNearestPointOnPath pm clickPoint pathId now =
     (case map_of (paths pm) pathId of
        None \<Rightarrow> Inr None
      | Some path \<Rightarrow>
          (case points path of
             [] \<Rightarrow> Inl TypeError
           | p0 # _ \<Rightarrow>
               (case nearest_loop clickPoint now (calculatePathLength path) (points path)
                       (p0, distanceToPoint clickPoint p0, 0, 0) of
                  (nearestPoint, minDistance, nearestProgress, accumulatedLength) \<Rightarrow>
                    Inr (Some \<lparr>res_point = nearestPoint,
                                progress = max 0 (min 1 nearestProgress)\<rparr>))))"

definition distanceToLineSegment :: "Point \<Rightarrow> Point \<Rightarrow> Point \<Rightarrow> real" where
  "distanceToLineSegment point lineStart lineEnd =
     (let A = fl (px point - px lineStart);
          B = fl (py point - py lineStart);
          C = fl (px lineEnd - px lineStart);
          D = fl (py lineEnd - py lineStart);
          dot = fl (fl (A * C) + fl (B * D));
          lenSq = fl (fl (C * C) + fl (D * D))
      in if lenSq = 0 then fl (sqrt (fl (fl (A * A) + fl (B * B))))
         else (let param = fl (dot / lenSq);
                   xx = (if param < 0 then px lineStart
                         else if param > 1 then px lineEnd
                         else fl (px lineStart + fl (param * C)));
                   yy = (if param < 0 then py lineStart
                         else if param > 1 then py lineEnd
                         else fl (py lineStart + fl (param * D)));
                   dx = fl (px point - xx);
                   dy = fl (py point - yy)
               in fl (sqrt (fl (fl (dx * dx) + fl (dy * dy))))))"

fun segment_near :: "Point \<Rightarrow> real \<Rightarrow> Point list \<Rightarrow> bool" where
  "segment_near point tolerance (p1 # p2 # rest) =
     (if distanceToLineSegment point p1 p2 \<le> tolerance then True
      else segment_near point tolerance (p2 # rest))"
| "segment_near point tolerance [p] = False"
| "segment_near point tolerance [] = False"

definition isPointNearPath :: "Point \<Rightarrow> AudioPath \<Rightarrow> real \<Rightarrow> bool" where
  "isPointNearPath point path tolerance =
     (let box = boundingBox path
      in if px point < fl (bx box - tolerance) \<or>
            px point > fl (fl (bx box + width box) + tolerance) \<or>
            py point < fl (by box - tolerance) \<or>
            py point > fl (fl (by box + height box) + tolerance)
         then False
         else if segment_near point tolerance (points path) then True
         else (case points path of
                 [pathPoint] \<Rightarrow>
                   (let dx = fl (px point - px pathPoint); dy = fl (py point - py pathPoint)
                    in fl (sqrt (fl (fl (dx * dx) + fl (dy * dy)))) \<le> tolerance)
               | _ \<Rightarrow> False))"

fun findPath_loop :: "Point \<Rightarrow> real \<Rightarrow> (string \<times> AudioPath) list \<Rightarrow> string option" where
  "findPath_loop point tolerance [] = None"
| "findPath_loop point tolerance ((pathId, path) # rest) =
     (if isPointNearPath point path tolerance then Some pathId
      else findPath_loop point tolerance rest)"

definition findPathAtPoint :: "PathManager \<Rightarrow> Point \<Rightarrow> real \<Rightarrow> string option" where
  "findPathAtPoint pm point tolerance = findPath_loop point tolerance (paths pm)"

text \<open>Sequences of store operations, with the ids that \<^verbatim>\<open>startRecording\<close> returned.\<close>

datatype StoreOp =
    StartRecording Point real real
  | AddPoint string Point real
  | EndRecording string
  | DeletePath string
  | ClearAllPaths
  | AttachAudioData string ArrayBuffer

fun apply_op :: "PathManager \<Rightarrow> StoreOp \<Rightarrow> PathManager \<times> string list" where
  "apply_op pm (StartRecording point now dateNow) =
     (case startRecording pm point now dateNow of (pathId, pm') \<Rightarrow> (pm', [pathId]))"
| "apply_op pm (AddPoint pathId point now) = (addPoint pm pathId point now, [])"
| "apply_op pm (EndRecording pathId) = (endRecording pm pathId, [])"
| "apply_op pm (DeletePath pathId) = (deletePath pm pathId, [])"
| "apply_op pm ClearAllPaths = (clearAllPaths pm, [])"
| "apply_op pm (AttachAudioData pathId audio) = (attachAudioData pm pathId audio, [])"

fun run_ops :: "PathManager \<Rightarrow> StoreOp list \<Rightarrow> PathManager \<times> string list" where
  "run_ops pm [] = (pm, [])"
| "run_ops pm (operation # rest) =
     (case apply_op pm operation of
        (pm', ids) \<Rightarrow> (case run_ops pm' rest of (pm'', ids') \<Rightarrow> (pm'', ids @ ids')))"

section \<open>The audio capability (core/AudioEngine.ts)\<close>

text \<open>
  The engine is a wrapper around browser objects.  Its model keeps the flags that the
  coordinator reads and a log of the playback calls it receives; what the browser
  answers (whether \<^verbatim>\<open>getUserMedia\<close> grants the microphone, whether a \<^verbatim>\<open>MediaRecorder\<close>
  starts, the recorded bytes, the clock) comes with each event as an \<open>Env\<close>.  Decoding
  and scheduling of buffers inside the engine are not modelled.
\<close>

datatype AudioCall =
    PlayAudioAtPosition ArrayBuffer string real real
  | CreateLoop ArrayBuffer string real real
  | StopPlayback string

record AudioEngine =
  hasAudioContext :: bool
  isInitialized :: bool
  permissionGranted :: bool
  hasStream :: bool
  recorderActive :: bool
  calls :: "AudioCall list"

record Env =
  env_now :: real
  env_dateNow :: real
  env_micGranted :: bool
  env_recorderStarts :: bool
  env_recorded :: "ArrayBuffer option"

definition newAudioEngine :: AudioEngine where
  "newAudioEngine = \<lparr>hasAudioContext = False, isInitialized = False, permissionGranted = False,
     hasStream = False, recorderActive = False, calls = []\<rparr>"

definition initialize :: "AudioEngine \<Rightarrow> bool \<Rightarrow> bool \<times> AudioEngine" where
  "initialize ae contextCreated =
     (if isInitialized ae then (permissionGranted ae, ae)
      else if contextCreated then (True, ae\<lparr>hasAudioContext := True, isInitialized := True\<rparr>)
      else (False, ae))"

definition requestMicrophonePermission :: "AudioEngine \<Rightarrow> Env \<Rightarrow> bool \<times> AudioEngine" where
  "requestMicrophonePermission ae env =
     (if permissionGranted ae \<and> hasStream ae then (True, ae)
      else if env_micGranted env then (True, ae\<lparr>hasStream := True, permissionGranted := True\<rparr>)
      else (False, ae))"

definition ae_startRecording :: "AudioEngine \<Rightarrow> Env \<Rightarrow> bool \<times> AudioEngine" where
  "ae_startRecording ae env =
     (if \<not> permissionGranted ae \<or> \<not> hasStream ae then (False, ae)
      else if env_recorderStarts env then (True, ae\<lparr>recorderActive := True\<rparr>)
      else (False, ae))"

definition ae_stopRecording :: "AudioEngine \<Rightarrow> Env \<Rightarrow> ArrayBuffer option \<times> AudioEngine" where
  "ae_stopRecording ae env =
     (if \<not> recorderActive ae then (None, ae)
      else (env_recorded env, ae\<lparr>recorderActive := False\<rparr>))"

definition playAudioAtPosition ::
  "AudioEngine \<Rightarrow> ArrayBuffer \<Rightarrow> string \<Rightarrow> real \<Rightarrow> real \<Rightarrow> AudioEngine" where
  "playAudioAtPosition ae audio playbackId position rate =
     ae\<lparr>calls := calls ae @ [PlayAudioAtPosition audio playbackId position rate]\<rparr>"

definition createLoop ::
  "AudioEngine \<Rightarrow> ArrayBuffer \<Rightarrow> string \<Rightarrow> real \<Rightarrow> real \<Rightarrow> AudioEngine" where
  "createLoop ae audio playbackId position loopDuration =
     ae\<lparr>calls := calls ae @ [CreateLoop audio playbackId position loopDuration]\<rparr>"

definition stopPlayback :: "AudioEngine \<Rightarrow> string \<Rightarrow> AudioEngine" where
  "stopPlayback ae playbackId = ae\<lparr>calls := calls ae @ [StopPlayback playbackId]\<rparr>"

definition isReady :: "AudioEngine \<Rightarrow> bool" where
  "isReady ae = (isInitialized ae \<and> permissionGranted ae)"

definition destroy_engine :: "AudioEngine \<Rightarrow> AudioEngine" where
  "destroy_engine ae =
     ae\<lparr>hasAudioContext := False, isInitialized := False, permissionGranted := False,
        hasStream := False, recorderActive := False\<rparr>"

fun is_playback_command :: "AudioCall \<Rightarrow> bool" where
  "is_playback_command (PlayAudioAtPosition audio playbackId position rate) = True"
| "is_playback_command (CreateLoop audio playbackId position loopDuration) = True"
| "is_playback_command (StopPlayback playbackId) = False"

definition playback_commands :: "AudioEngine \<Rightarrow> AudioCall list" where
  "playback_commands ae = filter is_playback_command (calls ae)"

section \<open>The interaction coordinator (main.ts)\<close>

text \<open>
  The handlers of \<^verbatim>\<open>MelodiaApp\<close> as state transformers.  Each handler is one step: a
  handler that awaits the audio engine is taken to run to its end before the next event
  is delivered.  A handler that throws leaves the state as it was when it threw.  The
  nullable ids are options: an id made by the store is never the empty string, so the
  truth tests of the sources are tests for \<open>None\<close>.  The canvas, the renderer and the
  touch handler are not modelled, except for the visibility of the recording indicator.
\<close>

datatype InputType = MOUSE | TOUCH | PEN

record InputEvent =
  ev_type :: InputType
  ev_point :: Point
  isStart :: bool
  isEnd :: bool
  ev_id :: nat

record MelodiaApp =
  pathManager :: PathManager
  audioEngine :: AudioEngine
  currentRecordingPath :: "string option"
  isAppReady :: bool
  playingPaths :: "string set"
  playbackIndicators :: "string \<rightharpoonup> Point"
  activePlaybackPath :: "string option"
  lastPlaybackPoint :: "Point option"
  lastPlaybackTime :: real
  isMoving :: bool
  lastAudioPosition :: real
  recordingIndicatorHidden :: bool

definition movementThreshold :: real where
  "movementThreshold = 5"

definition newMelodiaApp :: MelodiaApp where
  "newMelodiaApp =
     \<lparr>pathManager = newPathManager, audioEngine = newAudioEngine,
      currentRecordingPath = None, isAppReady = False, playingPaths = {},
      playbackIndicators = Map.empty, activePlaybackPath = None, lastPlaybackPoint = None,
      lastPlaybackTime = 0, isMoving = False, lastAudioPosition = 0,
      recordingIndicatorHidden = True\<rparr>"

definition init :: "MelodiaApp \<Rightarrow> bool \<Rightarrow> MelodiaApp" where
  "init app contextCreated =
     app\<lparr>audioEngine := snd (initialize (audioEngine app) contextCreated),
         isAppReady := True\<rparr>"

definition handlePathPlayback :: "MelodiaApp \<Rightarrow> string \<Rightarrow> Point \<Rightarrow> Env \<Rightarrow> MelodiaApp" where
  "handlePathPlayback app pathId clickPoint env =
     (case getPath (pathManager app) pathId of
        None \<Rightarrow> app
      | Some path \<Rightarrow>
          (case audioData path of
             None \<Rightarrow> app
           | Some audio \<Rightarrow>
               (case findNearestPointOnPath (pathManager app) clickPoint pathId (env_now env) of
                  Inl e \<Rightarrow> app
                | Inr None \<Rightarrow> app
                | Inr (Some nearestResult) \<Rightarrow>
                    (let nearestPoint = res_point nearestResult;
                         (permitted, ae) =
                           (if \<not> isReady (audioEngine app)
                            then requestMicrophonePermission (audioEngine app) env
                            else (True, audioEngine app))
                     in if \<not> permitted then app\<lparr>audioEngine := ae\<rparr>
                        else (let position = fl (progress nearestResult * duration audio)
                              in app\<lparr>audioEngine :=
                                        createLoop ae (buffer audio) pathId position (fl (1 / 5)),
                                      activePlaybackPath := Some pathId,
                                      lastPlaybackPoint := Some nearestPoint,
                                      lastPlaybackTime := env_now env,
                                      isMoving := False,
                                      lastAudioPosition := position,
                                      playingPaths := insert pathId (playingPaths app),
                                      playbackIndicators :=
                                        (playbackIndicators app)(pathId \<mapsto> nearestPoint)\<rparr>)))))"

definition handleInputStart :: "MelodiaApp \<Rightarrow> InputEvent \<Rightarrow> Env \<Rightarrow> MelodiaApp" where
  "handleInputStart app event env =
     (if \<not> isAppReady app then app
      else (case findPathAtPoint (pathManager app) (ev_point event) 15 of
              Some existingPathId \<Rightarrow> handlePathPlayback app existingPathId (ev_point event) env
            | None \<Rightarrow>
                (let ae1 = (if \<not> isReady (audioEngine app)
                            then snd (requestMicrophonePermission (audioEngine app) env)
                            else audioEngine app);
                     ae2 = (if isReady ae1 then snd (ae_startRecording ae1 env) else ae1);
                     (pathId, pm) = startRecording (pathManager app) (ev_point event)
                                      (env_now env) (env_dateNow env)
                 in app\<lparr>audioEngine := ae2, pathManager := pm,
                         currentRecordingPath := Some pathId,
                         recordingIndicatorHidden := False\<rparr>)))"

definition handlePlaybackMove :: "MelodiaApp \<Rightarrow> Point \<Rightarrow> Env \<Rightarrow> MelodiaApp" where
  "handlePlaybackMove app currentPoint env =
     (case (activePlaybackPath app, lastPlaybackPoint app) of
        (Some playbackPath, Some lastPoint) \<Rightarrow>
          (case getPath (pathManager app) playbackPath of
             None \<Rightarrow> app
           | Some path \<Rightarrow>
               (case audioData path of
                  None \<Rightarrow> app
                | Some audio \<Rightarrow>
                    (let distance =
                           fl (sqrt (fl (fl ((fl (px currentPoint - px lastPoint))\<^sup>2) +
                                         fl ((fl (py currentPoint - py lastPoint))\<^sup>2))));
                         app1 = (if \<not> isMoving app \<and> distance > movementThreshold
                                 then app\<lparr>isMoving := True\<rparr> else app)
                     in if \<not> isMoving app1 then app1
                        else (let currentTime = env_now env;
                                  deltaTime = fl (currentTime - lastPlaybackTime app1)
                              in if deltaTime < 100 then app1
                                 else (case findNearestPointOnPath (pathManager app1) currentPoint
                                              playbackPath (env_now env) of
                                         Inl e \<Rightarrow> app1
                                       | Inr None \<Rightarrow> app1
                                       | Inr (Some nearestResult) \<Rightarrow>
                                           (let currentAudioPosition =
                                                  fl (progress nearestResult * duration audio);
                                                positionDiff =
                                                  \<bar>fl (currentAudioPosition -
                                                       lastAudioPosition app1)\<bar>;
                                                app2 =
                                                  (if positionDiff > fl (1 / 20)
                                                   then (let speed = (if deltaTime > 0
                                                                      then fl (fl (distance / deltaTime) * 1000)
                                                                      else 0);
                                                             baseSpeed = 100;
                                                             playbackRate =
                                                               max (1 / 2) (min 2 (fl (speed / baseSpeed)))
                                                         in app1\<lparr>audioEngine :=
                                                              playAudioAtPosition (audioEngine app1)
                                                                (buffer audio) playbackPath
                                                                currentAudioPosition playbackRate,
                                                              lastAudioPosition := currentAudioPosition\<rparr>)
                                                   else app1)
                                            in app2\<lparr>playbackIndicators :=
                                                      (playbackIndicators app2)
                                                        (playbackPath \<mapsto> res_point nearestResult),
                                                    lastPlaybackPoint := Some currentPoint,
                                                    lastPlaybackTime := currentTime\<rparr>))))))
      | _ \<Rightarrow> app)"

definition handleInputMove :: "MelodiaApp \<Rightarrow> InputEvent \<Rightarrow> Env \<Rightarrow> MelodiaApp" where
  "handleInputMove app event env =
     (if \<not> isAppReady app then app
      else if activePlaybackPath app \<noteq> None \<and> currentRecordingPath app = None
        then handlePlaybackMove app (ev_point event) env
      else (case currentRecordingPath app of
              Some recordingPath \<Rightarrow>
                app\<lparr>pathManager :=
                      addPoint (pathManager app) recordingPath (ev_point event) (env_now env)\<rparr>
            | None \<Rightarrow> app))"

definition handleInputEnd :: "MelodiaApp \<Rightarrow> InputEvent \<Rightarrow> Env \<Rightarrow> MelodiaApp" where
  "handleInputEnd app event env =
     (if \<not> isAppReady app then app
      else (case (activePlaybackPath app, currentRecordingPath app) of
              (Some playbackPath, None) \<Rightarrow>
                app\<lparr>audioEngine := stopPlayback (audioEngine app) playbackPath,
                    playingPaths := playingPaths app - {playbackPath},
                    playbackIndicators := (playbackIndicators app)(playbackPath := None),
                    activePlaybackPath := None,
                    lastPlaybackPoint := None,
                    isMoving := False,
                    lastAudioPosition := 0\<rparr>
            | (_, Some recordingPath) \<Rightarrow>
                (let pm1 = addPoint (pathManager app) recordingPath (ev_point event) (env_now env);
                     (recorded, ae) = ae_stopRecording (audioEngine app) env;
                     pm2 = (case recorded of
                              Some audio \<Rightarrow> attachAudioData pm1 recordingPath audio
                            | None \<Rightarrow> pm1);
                     pm3 = endRecording pm2 recordingPath
                 in app\<lparr>pathManager := pm3, audioEngine := ae,
                         recordingIndicatorHidden := True,
                         currentRecordingPath := None\<rparr>)
            | (None, None) \<Rightarrow> app))"

text \<open>
  The listener that \<^verbatim>\<open>setupPermissionRequest\<close> puts on the document for the first touch
  or mouse press.
\<close>

definition requestPermission :: "MelodiaApp \<Rightarrow> Env \<Rightarrow> MelodiaApp" where
  "requestPermission app env =
     (if \<not> isReady (audioEngine app)
      then app\<lparr>audioEngine := snd (requestMicrophonePermission (audioEngine app) env)\<rparr>
      else app)"

definition clearCanvas :: "MelodiaApp \<Rightarrow> MelodiaApp" where
  "clearCanvas app = app\<lparr>pathManager := clearAllPaths (pathManager app)\<rparr>"

definition destroy :: "MelodiaApp \<Rightarrow> MelodiaApp" where
  "destroy app = app\<lparr>audioEngine := destroy_engine (audioEngine app)\<rparr>"

text \<open>
  The store operations that \<^verbatim>\<open>handleInputEnd\<close> performs, in the order of its statements.
\<close>

definition handleInputEnd_ops :: "MelodiaApp \<Rightarrow> InputEvent \<Rightarrow> Env \<Rightarrow> StoreOp list" where
  "handleInputEnd_ops app event env =
     (if \<not> isAppReady app then []
      else (case (activePlaybackPath app, currentRecordingPath app) of
              (Some playbackPath, None) \<Rightarrow> []
            | (_, Some recordingPath) \<Rightarrow>
                AddPoint recordingPath (ev_point event) (env_now env) #
                (case fst (ae_stopRecording (audioEngine app) env) of
                   Some audio \<Rightarrow> [AttachAudioData recordingPath audio]
                 | None \<Rightarrow> []) @
                [EndRecording recordingPath]
            | (None, None) \<Rightarrow> []))"

text \<open>The events that reach the coordinator, and the runs they make from a new app.\<close>

datatype AppEvent =
    Init bool
  | FirstInteraction Env
  | InputStart InputEvent Env
  | InputMove InputEvent Env
  | InputEnd InputEvent Env
  | ClearCanvas
  | Destroy

fun step :: "MelodiaApp \<Rightarrow> AppEvent \<Rightarrow> MelodiaApp" where
  "step app (Init contextCreated) = init app contextCreated"
| "step app (FirstInteraction env) = requestPermission app env"
| "step app (InputStart event env) = handleInputStart app event env"
| "step app (InputMove event env) = handleInputMove app event env"
| "step app (InputEnd event env) = handleInputEnd app event env"
| "step app ClearCanvas = clearCanvas app"
| "step app Destroy = destroy app"

definition run_events :: "AppEvent list \<Rightarrow> MelodiaApp" where
  "run_events events = foldl step newMelodiaApp events"

text \<open>
  The state of the gesture state machine, read off the two fields by which
  \<^verbatim>\<open>handleInputMove\<close> and \<^verbatim>\<open>handleInputEnd\<close> choose their branch.
\<close>

datatype Mode = Idle | Recording string | Scrubbing string

definition mode :: "MelodiaApp \<Rightarrow> Mode" where
  "mode app =
     (case currentRecordingPath app of
        Some recordingPath \<Rightarrow> Recording recordingPath
      | None \<Rightarrow>
          (case activePlaybackPath app of
             Some playbackPath \<Rightarrow> Scrubbing playbackPath
           | None \<Rightarrow> Idle))"

section \<open>Notions of the specification and of the proofs\<close>

text \<open>
  The definitions of this section are not translations of code: they say what the
  specification means by a minimal bounding box and by its record-and-play scenario,
  and they name the invariant and the concrete runs that the proofs use.
\<close>

definition mkPoint :: "real \<Rightarrow> real \<Rightarrow> Point" where
  "mkPoint a b = \<lparr>px = a, py = b, timestamp = 0, pressure = None\<rparr>"


text \<open>
  The scenario of the specification: \<^verbatim>\<open>startRecording({0,0,t0})\<close>,
  \<^verbatim>\<open>addPoint(id,{10,0,t0+100})\<close>, \<^verbatim>\<open>addPoint(id,{20,0,t0+200})\<close>, \<^verbatim>\<open>endRecording(id)\<close>,
  \<^verbatim>\<open>attachAudioData(id, payload)\<close>, on any store.
\<close>

definition scenario :: "PathManager \<Rightarrow> real \<Rightarrow> real \<Rightarrow> ArrayBuffer \<Rightarrow> string \<times> PathManager" where
  "scenario pm t0 dateNow payload =
     (case startRecording pm (mkPoint 0 0) t0 dateNow of
        (pathId, pm1) \<Rightarrow>
          (let pm2 = addPoint pm1 pathId (mkPoint 10 0) (t0 + 100);
               pm3 = addPoint pm2 pathId (mkPoint 20 0) (t0 + 200);
               pm4 = endRecording pm3 pathId;
               pm5 = attachAudioData pm4 pathId payload
           in (pathId, pm5)))"

definition progress_of :: "error + NearestResult option \<Rightarrow> real option" where
  "progress_of r = (case r of Inr (Some n) \<Rightarrow> Some (progress n) | _ \<Rightarrow> None)"

text \<open>A path of the store has audio attached.\<close>

definition hasAudio :: "PathManager \<Rightarrow> string \<Rightarrow> bool" where
  "hasAudio pm pathId =
     (case getPath pm pathId of None \<Rightarrow> False | Some path \<Rightarrow> audioData path \<noteq> None)"

text \<open>
  The invariant of the coordinator between two events: no active path has audio, the
  path being recorded has none, and no path has an id beyond the counter.
\<close>

definition audio_inv :: "MelodiaApp \<Rightarrow> bool" where
  "audio_inv app =
     ((\<forall>pathId \<in> activePaths (pathManager app). \<not> hasAudio (pathManager app) pathId) \<and>
      (\<forall>recordingPath. currentRecordingPath app = Some recordingPath \<longrightarrow>
          \<not> hasAudio (pathManager app) recordingPath) \<and>
      (\<forall>k > pathCounter (pathManager app).
          getPath (pathManager app) (''path-'' @ string_of_nat k) = None))"

subsection \<open>Concrete runs\<close>

definition inputAt :: "real \<Rightarrow> real \<Rightarrow> InputEvent" where
  "inputAt a b =
     \<lparr>ev_type = TOUCH, ev_point = mkPoint a b, isStart = False, isEnd = False, ev_id = 0\<rparr>"

definition envAt :: "real \<Rightarrow> bool \<Rightarrow> ArrayBuffer option \<Rightarrow> Env" where
  "envAt t granted recorded =
     \<lparr>env_now = t, env_dateNow = t, env_micGranted = granted, env_recorderStarts = granted,
      env_recorded = recorded\<rparr>"

text \<open>A stroke from (0,0) to (10,0) drawn in one second, recorded with the microphone.\<close>

definition recorded_events :: "AppEvent list" where
  "recorded_events =
     [Init True, InputStart (inputAt 0 0) (envAt 0 True None),
      InputEnd (inputAt 10 0) (envAt 1000 True (Some [1, 2, 3]))]"

definition recorded_app :: MelodiaApp where
  "recorded_app = run_events recorded_events"

text \<open>The same stroke drawn without a microphone: the path gets no audio.\<close>

definition silent_app :: MelodiaApp where
  "silent_app = run_events
     [Init True, InputStart (inputAt 0 0) (envAt 0 False None),
      InputEnd (inputAt 10 0) (envAt 1000 False None)]"

text \<open>The stroke while it is still being drawn.\<close>

definition recording_app :: MelodiaApp where
  "recording_app = run_events [Init True, InputStart (inputAt 0 0) (envAt 0 True None)]"

text \<open>The recorded stroke, and a second stroke begun away from it.\<close>

definition second_stroke_events :: "AppEvent list" where
  "second_stroke_events =
     recorded_events @ [InputStart (inputAt 50 50) (envAt 2000 True None)]"

definition demo_path :: "AudioData option \<Rightarrow> AudioPath" where
  "demo_path audio =
     \<lparr>path_id = ''path-1'',
      points = [\<lparr>px = 0, py = 0, timestamp = 0, pressure = None\<rparr>,
                \<lparr>px = 10, py = 0, timestamp = 1000, pressure = None\<rparr>],
      audioData = audio, style = getDefaultStyle,
      boundingBox = \<lparr>bx = 0, by = 0, width = 10, height = 0\<rparr>, createdAt = 0\<rparr>"

definition demo_audio :: AudioData where
  "demo_audio = \<lparr>buffer = [1, 2, 3], format = Webm, sampleRate = 44100, duration = 1,
      metadata = \<lparr>recordedAt = 0, originalSpeed = Num (fl (1 / 100))\<rparr>\<rparr>"


definition rightward_store :: PathManager where
  "rightward_store =
     (case startRecording newPathManager (mkPoint (fl (1 / 10)) 0) 0 0 of
        (pathId, pm) \<Rightarrow>
          addPoint (addPoint pm pathId (mkPoint (fl (3 / 10)) 0) 10) pathId
            (mkPoint (fl (4 / 5)) 0) 20)"


text \<open>
  A scrubbing gesture on the recorded stroke: the finger comes down at (6,8), eight
  pixels above the stroke; a first move event reports the same position, a second one
  the position (7.5,10), which is 2.5 pixels from where the finger came down.
\<close>

definition touched_app :: MelodiaApp where
  "touched_app = handleInputStart recorded_app (inputAt 6 8) (envAt 3000 True None)"

definition moving_app :: MelodiaApp where
  "moving_app = handleInputMove touched_app (inputAt 6 8) (envAt 3200 True None)"

definition jitter_events :: "AppEvent list" where
  "jitter_events =
     [InputStart (inputAt 6 8) (envAt 3000 True None),
      InputMove (inputAt 6 8) (envAt 3200 True None),
      InputMove (inputAt (15 / 2) 10) (envAt 3400 True None)]"

section \<open>Rounding\<close>

text \<open>
  How to compute \<open>fl\<close>: for a value below \<open>2 ^ 53\<close>, scale it by the power of two that
  brings it between \<open>2 ^ 52\<close> and \<open>2 ^ 53\<close> and take the nearest integer.
\<close>

lemma round_half_even_eqI:
  assumes "\<bar>y - of_int m\<bar> < 1 / 2 \<or> (\<bar>y - of_int m\<bar> = 1 / 2 \<and> even m)"
  shows "round_half_even y = m"
proof -
  define f where "f = \<lfloor>y\<rfloor>"
  define d where "d = y - of_int f"
  have fl: "of_int f \<le> y" "y < of_int f + 1" unfolding f_def by linarith+
  have u: "round_half_even y =
             (if d < 1 / 2 then f else if d > 1 / 2 then f + 1 else if even f then f else f + 1)"
    by (simp add: round_half_even_def f_def d_def Let_def)
  have "of_int m - 1 < (of_int f :: real) + 1" "(of_int f :: real) < of_int m + 1"
    using fl assms by linarith+
  then have "m - 1 < f + 1" "f < m + 1" by linarith+
  then have "f = m \<or> f = m - 1" by linarith
  then show ?thesis
  proof
    assume e: "f = m"
    then have "d = y - of_int m" by (simp add: d_def)
    then have "d < 1 / 2 \<or> (d = 1 / 2 \<and> even f)" using assms fl e by auto
    then show ?thesis unfolding u using e by auto
  next
    assume e: "f = m - 1"
    then have "d = y - of_int m + 1" by (simp add: d_def)
    then have "d > 1 / 2 \<or> (d = 1 / 2 \<and> odd f)" using assms fl e by auto
    then show ?thesis unfolding u using e by auto
  qed
qed

lemma fl_0 [simp]: "fl 0 = 0"
  by (simp add: fl_def)

lemma fl_eqI:
  fixes k :: nat and m :: int
  assumes k: "k \<le> 1074"
      and lo: "2 ^ 52 \<le> \<bar>x\<bar> * 2 ^ k \<or> k = 1074"
      and hi: "\<bar>x\<bar> * 2 ^ k < 2 ^ 53"
      and r: "\<bar>x * 2 ^ k - of_int m\<bar> < 1 / 2 \<or> (\<bar>x * 2 ^ k - of_int m\<bar> = 1 / 2 \<and> even m)"
  shows "fl x = of_int m / 2 ^ k"
proof (cases "x = 0")
  case True
  then have "\<bar>(of_int m :: real)\<bar> < 1" using r by auto
  then have "m = 0" by linarith
  then show ?thesis using True by simp
next
  case False
  then have pos: "0 < \<bar>x\<bar>" by simp
  have p2: "(2::real) powr (- real k) = 1 / 2 ^ k"
    by (simp add: powr_minus powr_realpow divide_inverse)
  have up: "\<bar>x\<bar> < 2 powr (of_int (52 - int k) + 1)"
  proof -
    have "\<bar>x\<bar> < 2 ^ 53 / 2 ^ k" using hi by (simp add: field_simps)
    also have "\<dots> = 2 powr (53 - real k)"
      by (simp add: powr_diff powr_realpow)
    finally show ?thesis by (simp add: algebra_simps)
  qed
  have e: "max \<lfloor>log 2 \<bar>x\<bar>\<rfloor> (- 1022) - 52 = - int k"
  proof (cases "2 ^ 52 \<le> \<bar>x\<bar> * 2 ^ k")
    case True
    then have "2 ^ 52 / 2 ^ k \<le> \<bar>x\<bar>" by (simp add: field_simps)
    moreover have "(2::real) ^ 52 / 2 ^ k = 2 powr (52 - real k)"
      by (simp add: powr_diff powr_realpow)
    ultimately have "2 powr of_int (52 - int k) \<le> \<bar>x\<bar>" by simp
    then have "\<lfloor>log 2 \<bar>x\<bar>\<rfloor> = 52 - int k"
      using up pos by (subst floor_log_eq_powr_iff) simp_all
    then show ?thesis using k by simp
  next
    case F: False
    then have k': "k = 1074" using lo by simp
    have "\<bar>x\<bar> < 2 ^ 52 / 2 ^ k" using F by (simp add: field_simps)
    also have "\<dots> = 2 powr (52 - real k)" by (simp add: powr_diff powr_realpow)
    finally have "log 2 \<bar>x\<bar> < 52 - real k"
      using pos by (simp add: log_less_iff)
    then have "\<lfloor>log 2 \<bar>x\<bar>\<rfloor> < 52 - int k" by linarith
    then show ?thesis using k' by simp
  qed
  have "round_half_even (x * 2 ^ k) = m" using r by (rule round_half_even_eqI)
  then show ?thesis
    using False by (simp add: fl_def e Let_def p2)
qed

lemma round_half_even_near:
  "\<bar>y - of_int (round_half_even y)\<bar> < 1 / 2 \<or>
   (\<bar>y - of_int (round_half_even y)\<bar> = 1 / 2 \<and> even (round_half_even y))"
proof -
  define f where "f = \<lfloor>y\<rfloor>"
  define d where "d = y - of_int f"
  define r where "r = round_half_even y"
  have d: "0 \<le> d" "d < 1" unfolding d_def f_def by linarith+
  have u: "r = (if d < 1 / 2 then f else if d > 1 / 2 then f + 1
                else if even f then f else f + 1)"
    by (simp add: r_def round_half_even_def f_def d_def Let_def)
  have y: "y = of_int f + d" by (simp add: d_def)
  have "\<bar>y - of_int r\<bar> < 1 / 2 \<or> (\<bar>y - of_int r\<bar> = 1 / 2 \<and> even r)"
  proof (cases "d < 1 / 2")
    case True
    then have "r = f" by (simp add: u)
    then show ?thesis using True d y by simp
  next
    case False
    show ?thesis
    proof (cases "d > 1 / 2")
      case True
      then have "r = f + 1" using False by (simp add: u)
      then show ?thesis using True d y by simp
    next
      case F: False
      then have dh: "d = 1 / 2" using False by simp
      show ?thesis
      proof (cases "even f")
        case True
        then have "r = f" using dh by (simp add: u)
        then show ?thesis using True dh y by simp
      next
        case False
        then have "r = f + 1" using dh by (simp add: u)
        then show ?thesis using False dh y by simp
      qed
    qed
  qed
  then show ?thesis by (simp add: r_def)
qed

lemma round_half_even_minus: "round_half_even (- y) = - round_half_even y"
proof (rule round_half_even_eqI)
  have "\<bar>- y - of_int (- round_half_even y)\<bar> = \<bar>y - of_int (round_half_even y)\<bar>"
    by simp
  then show "\<bar>- y - of_int (- round_half_even y)\<bar> < 1 / 2 \<or>
        \<bar>- y - of_int (- round_half_even y)\<bar> = 1 / 2 \<and> even (- round_half_even y)"
    using round_half_even_near[of y] by simp
qed

lemma fl_minus [simp]: "fl (- x) = - fl x"
  by (simp add: fl_def Let_def round_half_even_minus)

lemma round_half_even_of_int [simp]: "round_half_even (of_int j) = j"
  by (rule round_half_even_eqI) simp

text \<open>A binary fraction with a numerator of at most 53 bits is a binary64 value.\<close>

lemma fl_dyadic:
  fixes k :: nat and m :: int
  assumes k: "k \<le> 1074" and m: "\<bar>m\<bar> < 2 ^ 53"
  shows "fl (of_int m / 2 ^ k) = of_int m / 2 ^ k"
proof (cases "m = 0")
  case True
  then show ?thesis by simp
next
  case False
  define x :: real where "x = of_int m / 2 ^ k"
  define e where "e = max \<lfloor>log 2 \<bar>x\<bar>\<rfloor> (- 1022) - 52"
  have xpos: "0 < \<bar>x\<bar>" using False by (simp add: x_def)
  have "\<bar>x\<bar> = \<bar>of_int m\<bar> / 2 ^ k" by (simp add: x_def)
  also have "\<dots> < 2 ^ 53 / 2 ^ k"
  proof -
    have "\<bar>of_int m :: real\<bar> < 2 ^ 53"
      using m by (metis of_int_abs of_int_less_iff of_int_numeral of_int_power)
    then show ?thesis by (simp add: divide_strict_right_mono)
  qed
  also have "\<dots> = 2 powr (53 - real k)" by (simp add: powr_diff powr_realpow)
  finally have "log 2 \<bar>x\<bar> < 53 - real k" using xpos by (simp add: log_less_iff)
  then have "\<lfloor>log 2 \<bar>x\<bar>\<rfloor> < 53 - int k" by linarith
  then have ele: "e \<le> - int k" using k by (simp add: e_def)
  define j where "j = nat (- int k - e)"
  have je: "e = - int k - int j" using ele by (simp add: j_def)
  have pe: "(2::real) powr of_int e = 1 / (2 ^ k * 2 ^ j)"
  proof -
    have "(2::real) powr of_int e = 2 powr (- (real k + real j))" by (simp add: je)
    also have "\<dots> = 1 / 2 powr (real k + real j)" by (rule powr_minus_divide)
    also have "\<dots> = 1 / (2 ^ k * 2 ^ j)" by (simp add: powr_add powr_realpow)
    finally show ?thesis .
  qed
  have "x / 2 powr of_int e = of_int (m * 2 ^ j)"
    by (simp add: pe x_def)
  then have "round_half_even (x / 2 powr of_int e) = m * 2 ^ j"
    by (simp only: round_half_even_of_int)
  then have "fl x = of_int (m * 2 ^ j) * (1 / (2 ^ k * 2 ^ j))"
    using xpos by (simp add: fl_def e_def[symmetric] Let_def pe)
  also have "\<dots> = x" by (simp add: x_def)
  finally show ?thesis by (simp add: x_def)
qed

lemma fl_of_int: "\<bar>m\<bar> < 2 ^ 53 \<Longrightarrow> fl (of_int m) = of_int m"
  using fl_dyadic[of 0 m] by simp

lemma fl_numeral [simp]:
  "(numeral w :: int) < 9007199254740992 \<Longrightarrow> fl (numeral w) = numeral w"
  using fl_of_int[of "numeral w"] by simp

lemma fl_1 [simp]: "fl 1 = 1"
  using fl_of_int[of 1] by simp

lemma fl_half [simp]: "fl (1 / 2) = 1 / 2"
  using fl_dyadic[of 1 1] by simp

lemma fl_sqrt_eqI:
  fixes k :: nat and m :: int
  assumes k: "k \<le> 1074"
      and lo: "2 ^ 104 \<le> x * 4 ^ k"
      and hi: "x * 4 ^ k < 2 ^ 106"
      and m: "1 \<le> m"
      and below: "(2 * of_int m - 1)\<^sup>2 < 4 * (x * 4 ^ k)"
      and above: "4 * (x * 4 ^ k) < (2 * of_int m + 1)\<^sup>2"
  shows "fl (sqrt x) = of_int m / 2 ^ k"
proof (rule fl_eqI)
  show "k \<le> 1074" by fact
  have s: "sqrt x * 2 ^ k = sqrt (x * 4 ^ k)"
  proof -
    have "sqrt (x * 4 ^ k) = sqrt x * sqrt ((2 ^ k)\<^sup>2)"
      by (simp add: real_sqrt_mult power2_eq_square power_mult_distrib[symmetric])
    then show ?thesis by simp
  qed
  have "0 < x * 4 ^ k" using lo by (rule less_le_trans[rotated]) simp
  then have "0 < x" by (simp add: zero_less_mult_iff)
  then have "\<bar>sqrt x\<bar> = sqrt x" by simp
  then have a: "\<bar>sqrt x\<bar> * 2 ^ k = sqrt (x * 4 ^ k)"
    using s by (simp only:)
  have l: "2 ^ 52 \<le> sqrt (x * 4 ^ k)"
    by (rule real_le_rsqrt) (use lo in simp)
  have h: "sqrt (x * 4 ^ k) < 2 ^ 53"
    by (rule real_less_lsqrt) (use hi in simp_all)
  show "2 ^ 52 \<le> \<bar>sqrt x\<bar> * 2 ^ k \<or> k = 1074" unfolding a using l by simp
  show "\<bar>sqrt x\<bar> * 2 ^ k < 2 ^ 53" unfolding a using h by simp
  have mp: "0 \<le> (of_int m :: real) - 1 / 2" using m by simp
  have "(of_int m - 1 / 2)\<^sup>2 = (2 * of_int m - 1)\<^sup>2 / (4::real)"
    by (simp add: power2_eq_square field_simps)
  then have "(of_int m - 1 / 2)\<^sup>2 < x * 4 ^ k" using below by simp
  then have b: "of_int m - 1 / 2 < sqrt (x * 4 ^ k)" by (rule real_less_rsqrt)
  have "(of_int m + 1 / 2)\<^sup>2 = (2 * of_int m + 1)\<^sup>2 / (4::real)"
    by (simp add: power2_eq_square field_simps)
  then have "x * 4 ^ k < (of_int m + 1 / 2)\<^sup>2" using above by simp
  then have c: "sqrt (x * 4 ^ k) < of_int m + 1 / 2"
    using mp by (intro real_less_lsqrt) simp_all
  show "\<bar>sqrt x * 2 ^ k - of_int m\<bar> < 1 / 2 \<or>
        \<bar>sqrt x * 2 ^ k - of_int m\<bar> = 1 / 2 \<and> even m"
    unfolding s using b c by linarith
qed

section \<open>Properties of the Path Store\<close>

subsection \<open>Path ids\<close>

lemma string_of_nat_Suc_0: "string_of_nat (Suc 0) = ''1''"
  by code_simp

lemma of_char_digit: "d < 10 \<Longrightarrow> of_char (digit_char d) = 48 + d"
  by (simp add: digit_char_def)

lemma nat_of_string_snoc:
  "nat_of_string (cs @ [c]) = 10 * nat_of_string cs + (of_char c - 48)"
  by (simp add: nat_of_string_def)

lemma nat_of_string_of_nat: "nat_of_string (string_of_nat n) = n"
proof (induction n rule: string_of_nat.induct)
  case (1 n)
  show ?case
  proof (cases "n < 10")
    case True
    then show ?thesis
      by (subst string_of_nat.simps) (simp add: nat_of_string_def of_char_digit)
  next
    case False
    then have "nat_of_string (string_of_nat (n div 10)) = n div 10" using 1 by simp
    with False show ?thesis
      by (subst string_of_nat.simps) (simp add: nat_of_string_snoc of_char_digit)
  qed
qed

lemma string_of_nat_inj: "string_of_nat m = string_of_nat n \<Longrightarrow> m = n"
  by (metis nat_of_string_of_nat)

lemma startRecording_id:
  "fst (startRecording pm p now dateNow) = ''path-'' @ string_of_nat (pathCounter pm + 1)"
  "pathCounter (snd (startRecording pm p now dateNow)) = pathCounter pm + 1"
  by (simp_all add: startRecording_def Let_def)

lemma apply_op_ids:
  assumes "operation \<noteq> ClearAllPaths"
  shows "snd (apply_op pm operation) =
           map (\<lambda>k. ''path-'' @ string_of_nat k)
             [pathCounter pm + 1 ..< pathCounter (fst (apply_op pm operation)) + 1]
         \<and> pathCounter pm \<le> pathCounter (fst (apply_op pm operation))"
proof (cases operation)
  case (StartRecording p now dateNow)
  then show ?thesis
    using startRecording_id[of pm p now dateNow]
    by (simp add: split_beta)
next
  case (AddPoint pathId p now)
  then show ?thesis by (simp add: addPoint_def Let_def split: option.splits)
next
  case (AttachAudioData pathId audio)
  then show ?thesis by (simp add: attachAudioData_def Let_def split: option.splits)
qed (use assms in \<open>simp_all add: endRecording_def deletePath_def\<close>)

lemma run_ops_Cons:
  "fst (run_ops pm (operation # ops)) = fst (run_ops (fst (apply_op pm operation)) ops)"
  "snd (run_ops pm (operation # ops)) =
     snd (apply_op pm operation) @ snd (run_ops (fst (apply_op pm operation)) ops)"
  by (simp_all add: split_beta)

lemma run_ops_ids:
  assumes "ClearAllPaths \<notin> set ops"
  shows "snd (run_ops pm ops) =
           map (\<lambda>k. ''path-'' @ string_of_nat k)
             [pathCounter pm + 1 ..< pathCounter (fst (run_ops pm ops)) + 1]
         \<and> pathCounter pm \<le> pathCounter (fst (run_ops pm ops))"
  using assms
proof (induction ops arbitrary: pm)
  case Nil
  then show ?case by simp
next
  case (Cons operation ops)
  let ?pm1 = "fst (apply_op pm operation)"
  have a: "snd (apply_op pm operation) =
           map (\<lambda>k. ''path-'' @ string_of_nat k) [pathCounter pm + 1 ..< pathCounter ?pm1 + 1]"
       "pathCounter pm \<le> pathCounter ?pm1"
    using apply_op_ids[of operation pm] Cons.prems by auto
  have b: "snd (run_ops ?pm1 ops) =
           map (\<lambda>k. ''path-'' @ string_of_nat k)
             [pathCounter ?pm1 + 1 ..< pathCounter (fst (run_ops ?pm1 ops)) + 1]"
       "pathCounter ?pm1 \<le> pathCounter (fst (run_ops ?pm1 ops))"
    using Cons.IH[of ?pm1] Cons.prems by auto
  have split: "[pathCounter pm + 1 ..< pathCounter (fst (run_ops ?pm1 ops)) + 1] =
      [pathCounter pm + 1 ..< pathCounter ?pm1 + 1] @
      [pathCounter ?pm1 + 1 ..< pathCounter (fst (run_ops ?pm1 ops)) + 1]"
  proof -
    obtain d where d: "pathCounter (fst (run_ops ?pm1 ops)) + 1 = (pathCounter ?pm1 + 1) + d"
      using b(2) by (metis add_le_mono1 le_Suc_ex)
    show ?thesis
      unfolding d using a(2) by (intro upt_add_eq_append) simp
  qed
  have "snd (run_ops pm (operation # ops)) =
           map (\<lambda>k. ''path-'' @ string_of_nat k)
             [pathCounter pm + 1 ..< pathCounter (fst (run_ops pm (operation # ops))) + 1]"
    by (simp only: run_ops_Cons a(1) b(1) split map_append)
  moreover have "pathCounter pm \<le> pathCounter (fst (run_ops pm (operation # ops)))"
    using a(2) b(2) by (simp only: run_ops_Cons)
  ultimately show ?case by blast
qed

text \<open>
  C4, as the sources have it.  \<^verbatim>\<open>clearAllPaths\<close> sets the counter back to 0, so the claim
  holds between two clears only: in every sequence of store operations without
  \<^verbatim>\<open>clearAllPaths\<close>, run on any store, the ids that the \<^verbatim>\<open>startRecording\<close> calls return are
  pairwise distinct.
\<close>

theorem ids_distinct_without_clear:
  "ClearAllPaths \<notin> set ops \<Longrightarrow> distinct (snd (run_ops pm ops))"
proof -
  assume "ClearAllPaths \<notin> set ops"
  then have "snd (run_ops pm ops) =
           map (\<lambda>k. ''path-'' @ string_of_nat k)
             [pathCounter pm + 1 ..< pathCounter (fst (run_ops pm ops)) + 1]"
    using run_ops_ids by blast
  moreover have "inj_on (\<lambda>k. ''path-'' @ string_of_nat k) A" for A
    by (rule inj_onI) (simp add: string_of_nat_inj)
  ultimately show ?thesis by (simp add: distinct_map)
qed

theorem ids_distinct_without_clear_witness:
  "ClearAllPaths \<notin> set [StartRecording (mkPoint 0 0) 0 0, EndRecording ''path-1'',
                          StartRecording (mkPoint 5 5) 1 1] \<and>
   distinct (snd (run_ops newPathManager
     [StartRecording (mkPoint 0 0) 0 0, EndRecording ''path-1'',
      StartRecording (mkPoint 5 5) 1 1]))"
  using ids_distinct_without_clear
          [of "[StartRecording (mkPoint 0 0) 0 0, EndRecording ''path-1'',
                StartRecording (mkPoint 5 5) 1 1]" newPathManager]
  by simp

text \<open>
  C4 as stated fails: after \<^verbatim>\<open>clearAllPaths\<close> the next \<^verbatim>\<open>startRecording\<close> returns
  \<^verbatim>\<open>path-1\<close> again.
\<close>

theorem ids_reused_after_clear:
  "\<not> distinct (snd (run_ops newPathManager
     [StartRecording (mkPoint 0 0) 0 0, ClearAllPaths, StartRecording (mkPoint 5 5) 1 1]))"
  by (simp add: startRecording_def newPathManager_def clearAllPaths_def Let_def
      string_of_nat_Suc_0)

subsection \<open>Unknown ids\<close>

text \<open>
  C5.  \<^verbatim>\<open>addPoint\<close> and \<^verbatim>\<open>attachAudioData\<close> have no statement that can throw: they are
  total functions on stores, so they return a store for every argument.  For an id that
  is not a key of \<^verbatim>\<open>paths\<close>, the store they return is the store they were given, in all
  three of its fields.
\<close>

theorem unknown_id_noop:
  "getPath pm pathId = None \<Longrightarrow>
     addPoint pm pathId point now = pm \<and> attachAudioData pm pathId audio = pm"
  by (simp add: getPath_def addPoint_def attachAudioData_def)

theorem unknown_id_noop_witness:
  "getPath newPathManager ''nonexistent'' = None \<and>
   addPoint newPathManager ''nonexistent'' (mkPoint 1 2) 3 = newPathManager \<and>
   attachAudioData newPathManager ''nonexistent'' [1, 2, 3] = newPathManager"
  using unknown_id_noop [of newPathManager "''nonexistent''" "mkPoint 1 2" 3 "[1, 2, 3]"]
  by (simp add: getPath_def newPathManager_def)

subsection \<open>Attaching audio\<close>

text \<open>
  C10.  For a path of the store, the \<^verbatim>\<open>duration\<close> that \<^verbatim>\<open>attachAudioData\<close> stores is the
  time between the first and the last point of the drawing gesture, in seconds (the
  timestamps are milliseconds), and 0 for a path with fewer than two points: it is what
  the JavaScript expression \<^verbatim>\<open>(end - start) / 1000\<close> evaluates to, each of the two
  operations rounding as JavaScript does.  The payload does not occur in it: the length
  of the recorded clip plays no part.
\<close>

theorem attachAudioData_duration:
  assumes "getPath pm pathId = Some path"
  shows "\<exists>path' ad. getPath (attachAudioData pm pathId audio) pathId = Some path' \<and>
     audioData path' = Some ad \<and>
     duration ad = (if length (points path) < 2 then 0
                    else fl (fl (timestamp (last (points path)) - timestamp (hd (points path)))
                             / 1000))"
  using assms
  by (simp add: getPath_def attachAudioData_def Let_def update_conv' getRecordingDuration_def)

lemma scenario_points:
  "\<exists>path. getPath (snd (scenario pm t0 dateNow payload)) (fst (scenario pm t0 dateNow payload))
             = Some path \<and>
     points path = [(mkPoint 0 0)\<lparr>timestamp := t0\<rparr>, (mkPoint 10 0)\<lparr>timestamp := t0 + 100\<rparr>,
                    (mkPoint 20 0)\<lparr>timestamp := t0 + 200\<rparr>]"
  by (simp add: scenario_def startRecording_def addPoint_def endRecording_def attachAudioData_def
      getPath_def Let_def update_conv')

theorem attachAudioData_duration_witness:
  "\<exists>path. getPath (snd (scenario newPathManager 0 0 [])) (fst (scenario newPathManager 0 0 []))
             = Some path \<and>
     (\<exists>path' ad. getPath (attachAudioData (snd (scenario newPathManager 0 0 []))
                     (fst (scenario newPathManager 0 0 [])) [1, 2, 3])
                   (fst (scenario newPathManager 0 0 [])) = Some path' \<and>
        audioData path' = Some ad \<and> duration ad = fl (1 / 5))"
proof -
  obtain path where p:
    "getPath (snd (scenario newPathManager 0 0 [])) (fst (scenario newPathManager 0 0 []))
       = Some path"
    "points path = [(mkPoint 0 0)\<lparr>timestamp := 0\<rparr>, (mkPoint 10 0)\<lparr>timestamp := 0 + 100\<rparr>,
                    (mkPoint 20 0)\<lparr>timestamp := 0 + 200\<rparr>]"
    using scenario_points by blast
  show ?thesis
    using attachAudioData_duration [OF p(1), of "[1, 2, 3]"] p by (simp add: mkPoint_def)
qed

text \<open>
  C3 fails on the sources: \<^verbatim>\<open>attachAudioData\<close> divides \<^verbatim>\<open>pathLength\<close> by
  \<^verbatim>\<open>recordingDuration\<close> without a test, unlike every other division of the file.  For a
  path with one point both are 0, and the quotient \<^verbatim>\<open>0 / 0\<close>, which is \<^verbatim>\<open>NaN\<close>, is stored
  as \<^verbatim>\<open>originalSpeed\<close>.
\<close>

theorem attachAudioData_stores_NaN:
  "getPath (attachAudioData (snd (startRecording newPathManager (mkPoint 0 0) 5 7))
              ''path-1'' [1, 2, 3]) ''path-1''
   = Some \<lparr>path_id = ''path-1'',
            points = [\<lparr>px = 0, py = 0, timestamp = 5, pressure = None\<rparr>],
            audioData = Some \<lparr>buffer = [1, 2, 3], format = Webm, sampleRate = 44100,
                               duration = 0,
                               metadata = \<lparr>recordedAt = 7, originalSpeed = NaN\<rparr>\<rparr>,
            style = getDefaultStyle,
            boundingBox = \<lparr>bx = 0, by = 0, width = 0, height = 0\<rparr>,
            createdAt = 7\<rparr>"
  by (simp add: startRecording_def newPathManager_def string_of_nat_Suc_0 attachAudioData_def
      getPath_def Let_def calculatePathLength_def getRecordingDuration_def js_div_def
      createBoundingBox_def mkPoint_def)

subsection \<open>Progress along a path\<close>

lemma sqrt_100: "sqrt 100 = 10"
  by (rule real_sqrt_unique) simp_all

lemma sqrt_400: "sqrt 400 = 20"
  by (rule real_sqrt_unique) simp_all

text \<open>
  C7.  On the path with the points (0,0), (10,0), (20,0) of the scenario,
  \<^verbatim>\<open>findNearestPointOnPath\<close> returns a result with progress 1 for the query point (20,0),
  progress 0 for (0,0) and progress 1/2 for (10,0).  Every intermediate value of the
  three computations is a binary64 value, so no operation rounds and the results are
  exact.
\<close>

theorem scenario_progress:
  "progress_of (findNearestPointOnPath (snd (scenario pm t0 dateNow payload)) (mkPoint 20 0)
       (fst (scenario pm t0 dateNow payload)) now) = Some 1 \<and>
   progress_of (findNearestPointOnPath (snd (scenario pm t0 dateNow payload)) (mkPoint 0 0)
       (fst (scenario pm t0 dateNow payload)) now) = Some 0 \<and>
   progress_of (findNearestPointOnPath (snd (scenario pm t0 dateNow payload)) (mkPoint 10 0)
       (fst (scenario pm t0 dateNow payload)) now) = Some (1 / 2)"
proof -
  obtain path where p:
    "getPath (snd (scenario pm t0 dateNow payload)) (fst (scenario pm t0 dateNow payload))
       = Some path"
    "points path = [(mkPoint 0 0)\<lparr>timestamp := t0\<rparr>, (mkPoint 10 0)\<lparr>timestamp := t0 + 100\<rparr>,
                    (mkPoint 20 0)\<lparr>timestamp := t0 + 200\<rparr>]"
    using scenario_points by blast
  have len: "calculatePathLength path = 20"
    by (simp add: calculatePathLength_def p(2) mkPoint_def sqrt_100)
  show ?thesis
    using p(1)
    by (simp add: progress_of_def findNearestPointOnPath_def getPath_def p(2) len mkPoint_def
        closestPointOnLineSegment_def distanceToPoint_def Let_def sqrt_100 sqrt_400)
qed































































subsection \<open>Bounding boxes\<close>

lemma box_fl_1: "fl (1 / 10) = 3602879701896397 / 36028797018963968"
  using fl_eqI [of 56 "1 / 10" 7205759403792794] by simp

lemma box_fl_2: "fl (3602879701896397 / 36028797018963968) = 3602879701896397 / 36028797018963968"
  using fl_eqI [of 56 "3602879701896397 / 36028797018963968" 7205759403792794] by simp

lemma box_fl_3: "fl (7205759403792793 / 36028797018963968) = 7205759403792793 / 36028797018963968"
  using fl_eqI [of 55 "7205759403792793 / 36028797018963968" 7205759403792793] by simp

lemma box_fl_4: "fl (5404319552844595 / 18014398509481984) = 5404319552844595 / 18014398509481984"
  using fl_eqI [of 54 "5404319552844595 / 18014398509481984" 5404319552844595] by simp

lemma box_fl_5: "fl (3 / 10) = 5404319552844595 / 18014398509481984"
  using fl_eqI [of 54 "3 / 10" 5404319552844595] by simp

lemma box_fl_6: "fl (9007199254740993 / 18014398509481984) = 1 / 2"
  using fl_eqI [of 53 "9007199254740993 / 18014398509481984" 4503599627370496] by simp

lemma box_fl_7: "fl (25220157913274777 / 36028797018963968) = 3152519739159347 / 4503599627370496"
  using fl_eqI [of 53 "25220157913274777 / 36028797018963968" 6305039478318694] by simp

lemma box_fl_8: "fl (7 / 10) = 3152519739159347 / 4503599627370496"
  using fl_eqI [of 53 "7 / 10" 6305039478318694] by simp

lemma box_fl_9: "fl (25220157913274779 / 36028797018963968) = 6305039478318695 / 9007199254740992"
  using fl_eqI [of 53 "25220157913274779 / 36028797018963968" 6305039478318695] by simp

lemma box_fl_10: "fl (7205759403792793 / 9007199254740992) = 7205759403792793 / 9007199254740992"
  using fl_eqI [of 53 "7205759403792793 / 9007199254740992" 7205759403792793] by simp

lemma box_fl_11: "fl (28823037615171173 / 36028797018963968) = 7205759403792793 / 9007199254740992"
  using fl_eqI [of 53 "28823037615171173 / 36028797018963968" 7205759403792793] by simp

lemma box_fl_12: "fl (4 / 5) = 3602879701896397 / 4503599627370496"
  using fl_eqI [of 53 "4 / 5" 7205759403792794] by simp

lemma box_fl_13: "fl (28823037615171177 / 36028797018963968) = 3602879701896397 / 4503599627370496"
  using fl_eqI [of 53 "28823037615171177 / 36028797018963968" 7205759403792794] by simp

lemmas box_facts =
  box_fl_1 box_fl_2 box_fl_3 box_fl_4 box_fl_5 box_fl_6 box_fl_7 box_fl_8 box_fl_9 box_fl_10
  box_fl_11 box_fl_12 box_fl_13


text \<open>
  The other branch of \<^verbatim>\<open>updateBoundingBox\<close> sets the width to \<^verbatim>\<open>point.x - box.x\<close> in one
  step: for the same three points drawn from left to right the box covers them.
\<close>

lemma boundingBox_rightward:
  "getPath rightward_store ''path-1'' =
     Some \<lparr>path_id = ''path-1'',
            points = [\<lparr>px = fl (1 / 10), py = 0, timestamp = 0, pressure = None\<rparr>,
                      \<lparr>px = fl (3 / 10), py = 0, timestamp = 10, pressure = None\<rparr>,
                      \<lparr>px = fl (4 / 5), py = 0, timestamp = 20, pressure = None\<rparr>],
            audioData = None, style = getDefaultStyle,
            boundingBox = \<lparr>bx = fl (1 / 10), by = 0, width = fl (fl (4 / 5) - fl (1 / 10)),
                           height = 0\<rparr>,
            createdAt = 0\<rparr> \<and>
   fl (4 / 5) \<le> fl (1 / 10) + fl (fl (4 / 5) - fl (1 / 10)) \<and>
   fl (fl (1 / 10) + fl (fl (4 / 5) - fl (1 / 10))) = fl (4 / 5)"
  by (simp add: rightward_store_def getPath_def startRecording_def newPathManager_def
      string_of_nat_Suc_0 addPoint_def Let_def createBoundingBox_def updateBoundingBox_def
      mkPoint_def box_facts)

section \<open>Properties of the coordinator\<close>

subsection \<open>Concrete runs\<close>

lemma recorded_app_eq:
  "recorded_app = newMelodiaApp
     \<lparr>pathManager := \<lparr>paths = [(''path-1'', demo_path (Some demo_audio))], activePaths = {},
                       pathCounter = 1\<rparr>,
      audioEngine := \<lparr>hasAudioContext = True, isInitialized = True, permissionGranted = True,
                      hasStream = True, recorderActive = False, calls = []\<rparr>,
      isAppReady := True\<rparr>"
  by (simp add: recorded_app_def recorded_events_def run_events_def newMelodiaApp_def init_def
      initialize_def
      newAudioEngine_def newPathManager_def handleInputStart_def handleInputEnd_def
      findPathAtPoint_def isReady_def requestMicrophonePermission_def ae_startRecording_def
      ae_stopRecording_def startRecording_def addPoint_def attachAudioData_def endRecording_def
      inputAt_def envAt_def mkPoint_def Let_def string_of_nat_Suc_0 createBoundingBox_def
      updateBoundingBox_def calculatePathLength_def getRecordingDuration_def js_div_def
      sqrt_100 demo_path_def demo_audio_def)

lemma silent_app_eq:
  "silent_app = newMelodiaApp
     \<lparr>pathManager := \<lparr>paths = [(''path-1'', demo_path None)], activePaths = {},
                       pathCounter = 1\<rparr>,
      audioEngine := \<lparr>hasAudioContext = True, isInitialized = True, permissionGranted = False,
                      hasStream = False, recorderActive = False, calls = []\<rparr>,
      isAppReady := True\<rparr>"
  by (simp add: silent_app_def run_events_def newMelodiaApp_def init_def initialize_def
      newAudioEngine_def newPathManager_def handleInputStart_def handleInputEnd_def
      findPathAtPoint_def isReady_def requestMicrophonePermission_def ae_startRecording_def
      ae_stopRecording_def startRecording_def addPoint_def attachAudioData_def endRecording_def
      inputAt_def envAt_def mkPoint_def Let_def string_of_nat_Suc_0 createBoundingBox_def
      updateBoundingBox_def calculatePathLength_def getRecordingDuration_def js_div_def
      sqrt_100 demo_path_def)

lemma recording_app_eq:
  "recording_app = newMelodiaApp
     \<lparr>pathManager :=
        \<lparr>paths = [(''path-1'',
                    \<lparr>path_id = ''path-1'',
                     points = [\<lparr>px = 0, py = 0, timestamp = 0, pressure = None\<rparr>],
                     audioData = None, style = getDefaultStyle,
                     boundingBox = \<lparr>bx = 0, by = 0, width = 0, height = 0\<rparr>,
                     createdAt = 0\<rparr>)],
         activePaths = {''path-1''}, pathCounter = 1\<rparr>,
      audioEngine := \<lparr>hasAudioContext = True, isInitialized = True, permissionGranted = True,
                      hasStream = True, recorderActive = True, calls = []\<rparr>,
      currentRecordingPath := Some ''path-1'',
      isAppReady := True,
      recordingIndicatorHidden := False\<rparr>"
  by (simp add: recording_app_def run_events_def newMelodiaApp_def init_def initialize_def
      newAudioEngine_def newPathManager_def handleInputStart_def
      findPathAtPoint_def isReady_def requestMicrophonePermission_def ae_startRecording_def
      startRecording_def inputAt_def envAt_def mkPoint_def Let_def string_of_nat_Suc_0
      createBoundingBox_def)

lemma demo_hit:
  "paths pm = [(''path-1'', demo_path audio)] \<Longrightarrow>
     findPathAtPoint pm (mkPoint 5 0) 15 = Some ''path-1''"
  by (simp add: findPathAtPoint_def isPointNearPath_def demo_path_def mkPoint_def
      distanceToLineSegment_def Let_def)

lemma demo_miss:
  "paths pm = [(''path-1'', demo_path audio)] \<Longrightarrow>
     findPathAtPoint pm (mkPoint 50 50) 15 = None"
  by (simp add: findPathAtPoint_def isPointNearPath_def demo_path_def mkPoint_def
      distanceToLineSegment_def Let_def)

lemma demo_nearest:
  "paths pm = [(''path-1'', demo_path audio)] \<Longrightarrow>
     findNearestPointOnPath pm (mkPoint 5 0) ''path-1'' t =
       Inr (Some \<lparr>res_point = \<lparr>px = 5, py = 0, timestamp = t, pressure = None\<rparr>,
                  progress = 1 / 2\<rparr>)"
  by (simp add: findNearestPointOnPath_def demo_path_def mkPoint_def calculatePathLength_def
      closestPointOnLineSegment_def distanceToPoint_def Let_def sqrt_100)

lemma silent_paths: "paths (pathManager silent_app) = [(''path-1'', demo_path None)]"
  by (simp add: silent_app_eq)

lemma recorded_paths:
  "paths (pathManager recorded_app) = [(''path-1'', demo_path (Some demo_audio))]"
  by (simp add: recorded_app_eq)

lemma silent_fields:
  "isAppReady silent_app" "currentRecordingPath silent_app = None"
  "activePlaybackPath silent_app = None"
  by (simp_all add: silent_app_eq newMelodiaApp_def)

lemma recorded_fields:
  "isAppReady recorded_app" "currentRecordingPath recorded_app = None"
  "activePlaybackPath recorded_app = None" "isReady (audioEngine recorded_app)"
  "activePaths (pathManager recorded_app) = {}"
  "pathCounter (pathManager recorded_app) = 1"
  "calls (audioEngine recorded_app) = []"
  by (simp_all add: recorded_app_eq newMelodiaApp_def isReady_def)

lemma recorded_getPath:
  "getPath (pathManager recorded_app) ''path-1'' = Some (demo_path (Some demo_audio))"
  by (simp add: getPath_def recorded_paths)

lemma recorded_hit:
  "findPathAtPoint (pathManager recorded_app) (mkPoint 5 0) 15 = Some ''path-1''"
  using demo_hit[OF recorded_paths] .

lemma recorded_miss:
  "findPathAtPoint (pathManager recorded_app) (mkPoint 50 50) 15 = None"
  using demo_miss[OF recorded_paths] .

lemma ev_point_inputAt: "ev_point (inputAt a b) = mkPoint a b"
  by (simp add: inputAt_def)

subsection \<open>Entering Scrubbing or Recording\<close>

lemma segment_near_nonempty: "segment_near p tol ps \<Longrightarrow> ps \<noteq> []"
  by (cases ps) auto

lemma isPointNearPath_points: "isPointNearPath p path tol \<Longrightarrow> points path \<noteq> []"
  by (auto simp: isPointNearPath_def Let_def split: if_splits list.splits)

lemma findPath_loop_hit:
  assumes "findPath_loop p tol ps = Some hit" "distinct (map fst ps)"
  shows "\<exists>path. map_of ps hit = Some path \<and> isPointNearPath p path tol"
  using assms
proof (induction ps)
  case Nil
  then show ?case by simp
next
  case (Cons a ps)
  obtain k v where a: "a = (k, v)" by (cases a)
  show ?case
  proof (cases "isPointNearPath p v tol")
    case True
    then show ?thesis using Cons.prems a by simp
  next
    case False
    then have f: "findPath_loop p tol ps = Some hit" using Cons.prems a by simp
    then obtain path where q: "map_of ps hit = Some path" "isPointNearPath p path tol"
      using Cons.IH Cons.prems by auto
    then have "hit \<in> fst ` set ps" by (metis map_of_SomeD image_eqI fst_conv)
    then have "hit \<noteq> k" using Cons.prems(2) a by auto
    then show ?thesis using q a by simp
  qed
qed

lemma findNearest_some:
  assumes "getPath pm hit = Some path" "points path \<noteq> []"
  shows "\<exists>r. findNearestPointOnPath pm p hit t = Inr (Some r)"
  using assms
  by (auto simp: findNearestPointOnPath_def getPath_def split: list.splits prod.splits)

text \<open>
  C1, as the sources have it.  Take a ready app that is not recording, whose store has
  each id once (as a \<^verbatim>\<open>Map\<close> has), and an input-start event.
  \<^item> If the hit test with tolerance 15 returns a path that has audio, and the audio
    engine is ready or grants the microphone when asked, the app enters Scrubbing on
    that path and the store is unchanged.
  \<^item> If the hit path has audio but the engine is not ready and the microphone request
    fails, the gesture changes neither the state of the state machine nor the store:
    nothing changes but the engine, which is as the failed request left it.
  \<^item> If the hit path has no audio, the event is ignored: the app is unchanged, and
    no recording starts.
  \<^item> If the hit test returns nothing, the app enters Recording: \<^verbatim>\<open>startRecording\<close> makes
    a new path, whose id becomes the recording target.
\<close>

theorem input_start_cases:
  assumes "isAppReady app" and "currentRecordingPath app = None"
      and "distinct (map fst (paths (pathManager app)))"
  shows
   "(\<forall>hit path audio.
        findPathAtPoint (pathManager app) (ev_point ev) 15 = Some hit \<and>
        getPath (pathManager app) hit = Some path \<and> audioData path = Some audio \<and>
        (isReady (audioEngine app) \<or> fst (requestMicrophonePermission (audioEngine app) env))
        \<longrightarrow> mode (handleInputStart app ev env) = Scrubbing hit \<and>
            pathManager (handleInputStart app ev env) = pathManager app) \<and>
    (\<forall>hit path audio.
        findPathAtPoint (pathManager app) (ev_point ev) 15 = Some hit \<and>
        getPath (pathManager app) hit = Some path \<and> audioData path = Some audio \<and>
        \<not> (isReady (audioEngine app) \<or> fst (requestMicrophonePermission (audioEngine app) env))
        \<longrightarrow> mode (handleInputStart app ev env) = mode app \<and>
            pathManager (handleInputStart app ev env) = pathManager app \<and>
            handleInputStart app ev env =
              app\<lparr>audioEngine := snd (requestMicrophonePermission (audioEngine app) env)\<rparr>) \<and>
    (\<forall>hit path.
        findPathAtPoint (pathManager app) (ev_point ev) 15 = Some hit \<and>
        getPath (pathManager app) hit = Some path \<and> audioData path = None
        \<longrightarrow> handleInputStart app ev env = app) \<and>
    (findPathAtPoint (pathManager app) (ev_point ev) 15 = None
        \<longrightarrow> mode (handleInputStart app ev env) =
              Recording (fst (startRecording (pathManager app) (ev_point ev)
                                (env_now env) (env_dateNow env))) \<and>
            pathManager (handleInputStart app ev env) =
              snd (startRecording (pathManager app) (ev_point ev)
                     (env_now env) (env_dateNow env)))"
proof (intro conjI allI impI)
  fix hit path audio
  assume h: "findPathAtPoint (pathManager app) (ev_point ev) 15 = Some hit \<and>
        getPath (pathManager app) hit = Some path \<and> audioData path = Some audio \<and>
        (isReady (audioEngine app) \<or> fst (requestMicrophonePermission (audioEngine app) env))"
  then obtain path' where "map_of (paths (pathManager app)) hit = Some path'"
      "isPointNearPath (ev_point ev) path' 15"
    using findPath_loop_hit[of "ev_point ev" 15 "paths (pathManager app)" hit] assms(3)
    by (auto simp: findPathAtPoint_def)
  then have ne: "points path \<noteq> []" using h isPointNearPath_points by (auto simp: getPath_def)
  obtain r where r: "findNearestPointOnPath (pathManager app) (ev_point ev) hit (env_now env) = Inr (Some r)"
    using findNearest_some[of "pathManager app" hit path] h ne by blast
  show "mode (handleInputStart app ev env) = Scrubbing hit"
    using h assms(1,2) r
    by (auto simp: handleInputStart_def handlePathPlayback_def mode_def Let_def split_beta)
  show "pathManager (handleInputStart app ev env) = pathManager app"
    using h assms(1,2) r
    by (auto simp: handleInputStart_def handlePathPlayback_def mode_def Let_def split_beta)
next
  fix hit path audio
  assume h: "findPathAtPoint (pathManager app) (ev_point ev) 15 = Some hit \<and>
        getPath (pathManager app) hit = Some path \<and> audioData path = Some audio \<and>
        \<not> (isReady (audioEngine app) \<or> fst (requestMicrophonePermission (audioEngine app) env))"
  then obtain path' where "map_of (paths (pathManager app)) hit = Some path'"
      "isPointNearPath (ev_point ev) path' 15"
    using findPath_loop_hit[of "ev_point ev" 15 "paths (pathManager app)" hit] assms(3)
    by (auto simp: findPathAtPoint_def)
  then have ne: "points path \<noteq> []" using h isPointNearPath_points by (auto simp: getPath_def)
  obtain r where r: "findNearestPointOnPath (pathManager app) (ev_point ev) hit (env_now env) = Inr (Some r)"
    using findNearest_some[of "pathManager app" hit path] h ne by blast
  show "mode (handleInputStart app ev env) = mode app"
    using h assms(1,2)
    by (auto simp: handleInputStart_def handlePathPlayback_def mode_def Let_def split_beta
        split: sum.splits option.splits)
  show "pathManager (handleInputStart app ev env) = pathManager app"
    using h assms(1,2)
    by (auto simp: handleInputStart_def handlePathPlayback_def mode_def Let_def split_beta
        split: sum.splits option.splits)
  show "handleInputStart app ev env =
          app\<lparr>audioEngine := snd (requestMicrophonePermission (audioEngine app) env)\<rparr>"
    using h assms(1,2) r
    by (auto simp: handleInputStart_def handlePathPlayback_def Let_def split_beta)
next
  fix hit path
  assume "findPathAtPoint (pathManager app) (ev_point ev) 15 = Some hit \<and>
        getPath (pathManager app) hit = Some path \<and> audioData path = None"
  then show "handleInputStart app ev env = app"
    using assms(1) by (simp add: handleInputStart_def handlePathPlayback_def)
next
  assume n: "findPathAtPoint (pathManager app) (ev_point ev) 15 = None"
  show "mode (handleInputStart app ev env) =
              Recording (fst (startRecording (pathManager app) (ev_point ev)
                                (env_now env) (env_dateNow env)))"
    using n assms(1) by (simp add: handleInputStart_def Let_def split_beta mode_def)
  show "pathManager (handleInputStart app ev env) =
              snd (startRecording (pathManager app) (ev_point ev)
                     (env_now env) (env_dateNow env))"
    using n assms(1) by (simp add: handleInputStart_def Let_def split_beta)
qed

theorem input_start_cases_witness:
  "isAppReady recorded_app \<and> currentRecordingPath recorded_app = None \<and>
   distinct (map fst (paths (pathManager recorded_app))) \<and>
   findPathAtPoint (pathManager recorded_app) (ev_point (inputAt 5 0)) 15 = Some ''path-1'' \<and>
   getPath (pathManager recorded_app) ''path-1'' = Some (demo_path (Some demo_audio)) \<and>
   audioData (demo_path (Some demo_audio)) = Some demo_audio \<and>
   isReady (audioEngine recorded_app) \<and>
   mode (handleInputStart recorded_app (inputAt 5 0) (envAt 3000 True None)) =
     Scrubbing ''path-1'' \<and>
   findPathAtPoint (pathManager recorded_app) (ev_point (inputAt 50 50)) 15 = None \<and>
   mode (handleInputStart recorded_app (inputAt 50 50) (envAt 3000 True None)) =
     Recording ''path-2''"
proof -
  have a: "isAppReady recorded_app" "currentRecordingPath recorded_app = None"
    "distinct (map fst (paths (pathManager recorded_app)))"
    by (simp_all add: recorded_fields recorded_paths)
  have h: "findPathAtPoint (pathManager recorded_app) (ev_point (inputAt 5 0)) 15 = Some ''path-1''"
    by (simp add: ev_point_inputAt recorded_hit)
  have m: "findPathAtPoint (pathManager recorded_app) (ev_point (inputAt 50 50)) 15 = None"
    by (simp add: ev_point_inputAt recorded_miss)
  have au: "audioData (demo_path (Some demo_audio)) = Some demo_audio"
    by (simp add: demo_path_def)
  have id2: "fst (startRecording (pathManager recorded_app) (ev_point (inputAt 50 50))
                (env_now (envAt 3000 True None)) (env_dateNow (envAt 3000 True None))) =
             ''path-2''"
    unfolding startRecording_id by (simp add: recorded_fields) code_simp
  from input_start_cases [OF a, of "inputAt 5 0" "envAt 3000 True None"]
  have s: "mode (handleInputStart recorded_app (inputAt 5 0) (envAt 3000 True None)) =
             Scrubbing ''path-1''"
    using h recorded_getPath au recorded_fields(4) by blast
  from input_start_cases [OF a, of "inputAt 50 50" "envAt 3000 True None"]
  have r: "mode (handleInputStart recorded_app (inputAt 50 50) (envAt 3000 True None)) =
             Recording ''path-2''"
    using m id2 by simp
  show ?thesis
    using a h recorded_getPath au recorded_fields(4) s m r by simp
qed

text \<open>
  C1 as stated fails where the hit path has no audio: the stroke of \<open>silent_app\<close> was
  drawn without a microphone, and an input-start on it starts no recording.
\<close>

theorem silent_hit_ignored:
  "findPathAtPoint (pathManager silent_app) (ev_point (inputAt 5 0)) 15 = Some ''path-1'' \<and>
   getPath (pathManager silent_app) ''path-1'' = Some (demo_path None) \<and>
   audioData (demo_path None) = None \<and>
   mode (handleInputStart silent_app (inputAt 5 0) (envAt 2000 True None)) = Idle"
proof -
  have hit: "findPathAtPoint (pathManager silent_app) (ev_point (inputAt 5 0)) 15 =
               Some ''path-1''"
    using demo_hit[OF silent_paths] by (simp add: ev_point_inputAt)
  have gp: "getPath (pathManager silent_app) ''path-1'' = Some (demo_path None)"
    by (simp add: getPath_def silent_paths)
  have na: "audioData (demo_path None) = None" by (simp add: demo_path_def)
  have "handleInputStart silent_app (inputAt 5 0) (envAt 2000 True None) = silent_app"
    by (simp add: handleInputStart_def silent_fields hit handlePathPlayback_def gp na)
  then show ?thesis using hit gp na by (simp add: mode_def silent_fields)
qed

subsection \<open>Audio is attached once\<close>

lemma getPath_addPoint:
  "getPath (addPoint pm r p t) pathId =
     (if pathId = r
      then map_option (\<lambda>path. path\<lparr>points := points path @ [p\<lparr>timestamp := t\<rparr>],
              boundingBox := updateBoundingBox (boundingBox path) (p\<lparr>timestamp := t\<rparr>)\<rparr>)
             (getPath pm r)
      else getPath pm pathId)"
  by (simp add: getPath_def addPoint_def Let_def update_conv' split: option.splits)

lemma addPoint_fields:
  "activePaths (addPoint pm r p t) = activePaths pm"
  "pathCounter (addPoint pm r p t) = pathCounter pm"
  by (simp_all add: addPoint_def Let_def split: option.splits)

lemma getPath_attachAudioData_other:
  "pathId \<noteq> r \<Longrightarrow> getPath (attachAudioData pm r a) pathId = getPath pm pathId"
  by (simp add: getPath_def attachAudioData_def Let_def update_conv' split: option.splits)

lemma getPath_attachAudioData_None:
  "getPath (attachAudioData pm r a) pathId = None \<longleftrightarrow> getPath pm pathId = None"
  by (cases "pathId = r")
     (simp_all add: getPath_def attachAudioData_def Let_def update_conv' split: option.splits)

lemma getPath_addPoint_None:
  "getPath (addPoint pm r p t) pathId = None \<longleftrightarrow> getPath pm pathId = None"
  by (simp add: getPath_addPoint)

lemma attachAudioData_fields:
  "activePaths (attachAudioData pm r a) = activePaths pm"
  "pathCounter (attachAudioData pm r a) = pathCounter pm"
  by (simp_all add: attachAudioData_def Let_def split: option.splits)

lemma endRecording_fields:
  "getPath (endRecording pm r) pathId = getPath pm pathId"
  "activePaths (endRecording pm r) = activePaths pm - {r}"
  "pathCounter (endRecording pm r) = pathCounter pm"
  by (simp_all add: endRecording_def getPath_def)

lemma getPath_startRecording:
  "getPath (snd (startRecording pm p now dateNow)) pathId =
     (if pathId = fst (startRecording pm p now dateNow)
      then Some \<lparr>path_id = pathId, points = [p\<lparr>timestamp := now\<rparr>],
           audioData = None, style = getDefaultStyle,
           boundingBox = createBoundingBox (p\<lparr>timestamp := now\<rparr>), createdAt = dateNow\<rparr>
      else getPath pm pathId)"
  by (simp add: startRecording_def getPath_def Let_def update_conv')

lemma startRecording_fields:
  "activePaths (snd (startRecording pm p now dateNow)) =
     insert (fst (startRecording pm p now dateNow)) (activePaths pm)"
  "pathCounter (snd (startRecording pm p now dateNow)) = pathCounter pm + 1"
  "fst (startRecording pm p now dateNow) = ''path-'' @ string_of_nat (pathCounter pm + 1)"
  by (simp_all add: startRecording_def Let_def)

lemma handlePathPlayback_keeps:
  "pathManager (handlePathPlayback app hit p env) = pathManager app"
  "currentRecordingPath (handlePathPlayback app hit p env) = currentRecordingPath app"
  by (simp_all add: handlePathPlayback_def Let_def split_beta
      split: option.splits sum.splits)

lemma handlePlaybackMove_keeps:
  "pathManager (handlePlaybackMove app p env) = pathManager app"
  "currentRecordingPath (handlePlaybackMove app p env) = currentRecordingPath app"
  by (simp_all add: handlePlaybackMove_def Let_def split: option.splits sum.splits)

text \<open>The store and the recording target after each handler.\<close>

lemma start_store:
  "(pathManager (handleInputStart app ev env) = pathManager app \<and>
    currentRecordingPath (handleInputStart app ev env) = currentRecordingPath app) \<or>
   (pathManager (handleInputStart app ev env) =
      snd (startRecording (pathManager app) (ev_point ev) (env_now env) (env_dateNow env)) \<and>
    currentRecordingPath (handleInputStart app ev env) =
      Some (fst (startRecording (pathManager app) (ev_point ev) (env_now env) (env_dateNow env))))"
  by (simp add: handleInputStart_def handlePathPlayback_keeps Let_def split_beta
      split: option.splits)

lemma move_store:
  "(pathManager (handleInputMove app ev env) = pathManager app \<or>
    (\<exists>r. currentRecordingPath app = Some r \<and>
       pathManager (handleInputMove app ev env) =
         addPoint (pathManager app) r (ev_point ev) (env_now env))) \<and>
   currentRecordingPath (handleInputMove app ev env) = currentRecordingPath app"
  by (simp add: handleInputMove_def handlePlaybackMove_keeps split: option.splits)

lemma end_store:
  "(pathManager (handleInputEnd app ev env) = pathManager app \<and>
    currentRecordingPath (handleInputEnd app ev env) = currentRecordingPath app) \<or>
   (\<exists>r. currentRecordingPath app = Some r \<and>
      currentRecordingPath (handleInputEnd app ev env) = None \<and>
      (pathManager (handleInputEnd app ev env) =
         endRecording (addPoint (pathManager app) r (ev_point ev) (env_now env)) r \<or>
       (\<exists>a. pathManager (handleInputEnd app ev env) =
         endRecording (attachAudioData
           (addPoint (pathManager app) r (ev_point ev) (env_now env)) r a) r)))"
  by (auto simp: handleInputEnd_def Let_def split_beta split: option.splits)

lemma hasAudio_addPoint [simp]: "hasAudio (addPoint pm r p t) pathId = hasAudio pm pathId"
  by (simp add: hasAudio_def getPath_addPoint split: option.splits)

lemma hasAudio_endRecording [simp]: "hasAudio (endRecording pm r) pathId = hasAudio pm pathId"
  by (simp add: hasAudio_def endRecording_fields)

lemma hasAudio_attach_other [simp]:
  "pathId \<noteq> r \<Longrightarrow> hasAudio (attachAudioData pm r a) pathId = hasAudio pm pathId"
  by (simp add: hasAudio_def getPath_attachAudioData_other)

lemma hasAudio_startRecording [simp]:
  "hasAudio (snd (startRecording pm p now dateNow)) pathId =
     (pathId \<noteq> fst (startRecording pm p now dateNow) \<and> hasAudio pm pathId)"
  by (simp add: hasAudio_def getPath_startRecording)

lemma audio_inv_new: "audio_inv newMelodiaApp"
  by (simp add: audio_inv_def hasAudio_def newMelodiaApp_def newPathManager_def getPath_def)

lemma audio_inv_start:
  assumes "audio_inv app"
  shows "audio_inv (handleInputStart app ev env)"
proof -
  let ?sr = "startRecording (pathManager app) (ev_point ev) (env_now env) (env_dateNow env)"
  from start_store[of app ev env] show ?thesis
  proof
    assume "pathManager (handleInputStart app ev env) = pathManager app \<and>
      currentRecordingPath (handleInputStart app ev env) = currentRecordingPath app"
    then show ?thesis using assms by (simp add: audio_inv_def)
  next
    assume a: "pathManager (handleInputStart app ev env) = snd ?sr \<and>
      currentRecordingPath (handleInputStart app ev env) = Some (fst ?sr)"
    have inj: "''path-'' @ string_of_nat k \<noteq> fst ?sr"
      if "k > pathCounter (pathManager app) + 1" for k
      using that string_of_nat_inj[of k "pathCounter (pathManager app) + 1"]
      by (auto simp: startRecording_fields(3))
    have c1: "\<forall>pathId \<in> activePaths (snd ?sr). \<not> hasAudio (snd ?sr) pathId"
      using assms by (auto simp: audio_inv_def startRecording_fields(1))
    have c2: "\<not> hasAudio (snd ?sr) (fst ?sr)" by simp
    have c3: "\<forall>k > pathCounter (snd ?sr). getPath (snd ?sr) (''path-'' @ string_of_nat k) = None"
    proof (intro allI impI)
      fix k assume "pathCounter (snd ?sr) < k"
      then have k: "k > pathCounter (pathManager app) + 1" by (simp add: startRecording_fields(2))
      then have "getPath (pathManager app) (''path-'' @ string_of_nat k) = None"
        using assms by (simp add: audio_inv_def)
      then show "getPath (snd ?sr) (''path-'' @ string_of_nat k) = None"
        using inj[OF k] by (simp only: getPath_startRecording if_False)
    qed
    show ?thesis
      unfolding audio_inv_def using a c1 c2 c3 by simp
  qed
qed

lemma audio_inv_move:
  assumes "audio_inv app"
  shows "audio_inv (handleInputMove app ev env)"
  using move_store[of app ev env] assms
  unfolding audio_inv_def
  by (auto simp: getPath_addPoint_None addPoint_fields)

lemma audio_inv_end:
  assumes "audio_inv app"
  shows "audio_inv (handleInputEnd app ev env)"
  using end_store[of app ev env] assms
  unfolding audio_inv_def
  by (auto simp: getPath_addPoint_None addPoint_fields endRecording_fields
        attachAudioData_fields getPath_attachAudioData_None)

lemma audio_inv_step: "audio_inv app \<Longrightarrow> audio_inv (step app e)"
proof (cases e)
  case (Init c)
  assume "audio_inv app"
  then show ?thesis using Init by (simp add: audio_inv_def init_def)
next
  case (FirstInteraction env)
  assume "audio_inv app"
  then show ?thesis using FirstInteraction by (simp add: audio_inv_def requestPermission_def)
next
  case ClearCanvas
  then show ?thesis
    by (simp add: audio_inv_def hasAudio_def clearCanvas_def clearAllPaths_def getPath_def)
next
  case Destroy
  assume "audio_inv app"
  then show ?thesis using Destroy by (simp add: audio_inv_def destroy_def)
qed (simp_all add: audio_inv_start audio_inv_move audio_inv_end)

lemma audio_inv_run: "audio_inv (run_events events)"
  unfolding run_events_def
  by (induction events rule: rev_induct) (simp_all add: audio_inv_new audio_inv_step)

lemma audio_kept_step:
  assumes "audio_inv app" "getPath (pathManager app) pathId = Some path"
          "audioData path = Some audio"
  shows "case getPath (pathManager (step app e)) pathId of
           None \<Rightarrow> e = ClearCanvas
         | Some path' \<Rightarrow> audioData path' = Some audio"
proof (cases e)
  case (Init c)
  then show ?thesis using assms by (simp add: init_def)
next
  case (FirstInteraction env)
  then show ?thesis using assms by (simp add: requestPermission_def)
next
  case (InputStart ev env)
  have "''path-'' @ string_of_nat (pathCounter (pathManager app) + 1) \<noteq> pathId"
    using assms(1,2) by (auto simp: audio_inv_def)
  then show ?thesis
    using start_store[of app ev env] assms InputStart
    by (auto simp: getPath_startRecording startRecording_fields(3))
next
  case (InputMove ev env)
  then show ?thesis
    using move_store[of app ev env] assms
    by (auto simp: getPath_addPoint)
next
  case (InputEnd ev env)
  have ha: "hasAudio (pathManager app) pathId" using assms by (simp add: hasAudio_def)
  have ne: "r \<noteq> pathId" if "currentRecordingPath app = Some r" for r
    using that assms(1) ha by (auto simp: audio_inv_def)
  show ?thesis
    using end_store[of app ev env] assms InputEnd ne
    by (auto simp: getPath_addPoint endRecording_fields getPath_attachAudioData_other)
next
  case ClearCanvas
  then show ?thesis by (simp add: clearCanvas_def clearAllPaths_def getPath_def)
next
  case Destroy
  then show ?thesis using assms by (simp add: destroy_def)
qed

lemma handleInputEnd_runs_ops:
  "pathManager (handleInputEnd app event env) =
     fst (run_ops (pathManager app) (handleInputEnd_ops app event env))"
  by (simp add: handleInputEnd_def handleInputEnd_ops_def Let_def split_beta
      split: option.splits)

text \<open>
  C2, as the sources have it.  In every state that a run of coordinator events reaches
  from a new app (each handler taken as one step), no path of the active set has audio;
  and a path that has audio keeps exactly that audio through every further event, until
  \<^verbatim>\<open>clearCanvas\<close> removes the path: audio is attached to a path at most once.  (Inside
  \<^verbatim>\<open>handleInputEnd\<close> the audio is attached while the path is still active, and
  \<^verbatim>\<open>endRecording\<close> follows in the same handler.)
\<close>

theorem audio_attached_once:
  "(\<forall>pathId \<in> activePaths (pathManager (run_events events)).
       \<not> hasAudio (pathManager (run_events events)) pathId) \<and>
   (\<forall>pathId path audio.
       getPath (pathManager (run_events events)) pathId = Some path \<longrightarrow>
       audioData path = Some audio \<longrightarrow>
       (case getPath (pathManager (step (run_events events) e)) pathId of
          None \<Rightarrow> e = ClearCanvas
        | Some path' \<Rightarrow> audioData path' = Some audio))"
  using audio_inv_run[of events] audio_kept_step[of "run_events events"]
  by (auto simp: audio_inv_def)

lemma second_stroke_app_eq:
  "run_events second_stroke_events =
     handleInputStart recorded_app (inputAt 50 50) (envAt 2000 True None)"
  by (simp add: second_stroke_events_def run_events_def recorded_app_def)

lemma second_stroke_store:
  "pathManager (run_events second_stroke_events) =
     snd (startRecording (pathManager recorded_app) (mkPoint 50 50) 2000 2000)"
  by (simp add: second_stroke_app_eq handleInputStart_def recorded_fields ev_point_inputAt
      recorded_miss Let_def split_beta envAt_def)

theorem audio_attached_once_witness:
  "''path-2'' \<in> activePaths (pathManager (run_events second_stroke_events)) \<and>
   \<not> hasAudio (pathManager (run_events second_stroke_events)) ''path-2'' \<and>
   getPath (pathManager (run_events second_stroke_events)) ''path-1'' =
     Some (demo_path (Some demo_audio)) \<and>
   audioData (demo_path (Some demo_audio)) = Some demo_audio \<and>
   (case getPath (pathManager (step (run_events second_stroke_events)
                    (InputEnd (inputAt 60 50) (envAt 3000 True (Some [4, 5])))))
           ''path-1'' of
      None \<Rightarrow> False
    | Some path' \<Rightarrow> audioData path' = Some demo_audio)"
proof -
  let ?pm = "pathManager (run_events second_stroke_events)"
  let ?e = "InputEnd (inputAt 60 50) (envAt 3000 True (Some [4, 5]))"
  have id2: "fst (startRecording (pathManager recorded_app) (mkPoint 50 50) 2000 2000) =
               ''path-2''"
    unfolding startRecording_id by (simp add: recorded_fields) code_simp
  have act: "''path-2'' \<in> activePaths ?pm"
    using id2 by (simp add: second_stroke_store startRecording_fields(1))
  have gp: "getPath ?pm ''path-1'' = Some (demo_path (Some demo_audio))"
    using id2 by (simp add: second_stroke_store getPath_startRecording recorded_getPath)
  have au: "audioData (demo_path (Some demo_audio)) = Some demo_audio"
    by (simp add: demo_path_def)
  note inst = audio_attached_once [of second_stroke_events ?e]
  have na: "\<not> hasAudio ?pm ''path-2''" using inst act by blast
  have "case getPath (pathManager (step (run_events second_stroke_events) ?e)) ''path-1'' of
          None \<Rightarrow> ?e = ClearCanvas
        | Some path' \<Rightarrow> audioData path' = Some demo_audio"
    using inst gp au by blast
  then have kept:
    "case getPath (pathManager (step (run_events second_stroke_events) ?e)) ''path-1'' of
       None \<Rightarrow> False
     | Some path' \<Rightarrow> audioData path' = Some demo_audio"
    by (simp split: option.splits)
  show ?thesis using act na gp au kept by simp
qed

text \<open>
  C2 as stated fails inside \<^verbatim>\<open>handleInputEnd\<close>: the handler calls \<^verbatim>\<open>addPoint\<close>,
  \<^verbatim>\<open>attachAudioData\<close> and \<^verbatim>\<open>endRecording\<close> in this order, so after its second store
  operation the path has audio and is still in the active set.
\<close>

theorem audio_attached_while_active:
  "handleInputEnd_ops recording_app (inputAt 10 0) (envAt 1000 True (Some [1, 2, 3])) =
     [AddPoint ''path-1'' (mkPoint 10 0) 1000, AttachAudioData ''path-1'' [1, 2, 3],
      EndRecording ''path-1''] \<and>
   ''path-1'' \<in> activePaths (fst (run_ops (pathManager recording_app)
      [AddPoint ''path-1'' (mkPoint 10 0) 1000, AttachAudioData ''path-1'' [1, 2, 3]])) \<and>
   hasAudio (fst (run_ops (pathManager recording_app)
      [AddPoint ''path-1'' (mkPoint 10 0) 1000, AttachAudioData ''path-1'' [1, 2, 3]]))
     ''path-1''"
  by (simp add: handleInputEnd_ops_def recording_app_eq newMelodiaApp_def ae_stopRecording_def
      ev_point_inputAt envAt_def addPoint_def attachAudioData_def hasAudio_def getPath_def
      Let_def)

subsection \<open>Jitter while scrubbing\<close>

lemma scrub_fl_1: "fl (1 / 80) = 3602879701896397 / 288230376151711744"
  using fl_eqI [of 59 "1 / 80" 7205759403792794] by simp

lemma scrub_fl_2: "fl (1 / 20) = 3602879701896397 / 72057594037927936"
  using fl_eqI [of 57 "1 / 20" 7205759403792794] by simp

lemma scrub_fl_3: "fl (1 / 8) = 1 / 8"
  using fl_eqI [of 55 "1 / 8" 4503599627370496] by simp

lemma scrub_fl_4: "fl (1351079888211149 / 9007199254740992) = 1351079888211149 / 9007199254740992"
  using fl_eqI [of 55 "1351079888211149 / 9007199254740992" 5404319552844596] by simp

lemma scrub_fl_5: "fl (1 / 5) = 3602879701896397 / 18014398509481984"
  using fl_eqI [of 55 "1 / 5" 7205759403792794] by simp

lemma scrub_fl_6: "fl (5404319552844595 / 9007199254740992) = 5404319552844595 / 9007199254740992"
  using fl_eqI [of 53 "5404319552844595 / 9007199254740992" 5404319552844595] by simp

lemma scrub_fl_7: "fl (3 / 5) = 5404319552844595 / 9007199254740992"
  using fl_eqI [of 53 "3 / 5" 5404319552844595] by simp

lemma scrub_fl_8: "fl (3 / 4) = 3 / 4"
  using fl_eqI [of 53 "3 / 4" 6755399441055744] by simp

lemma scrub_fl_9: "fl (3 / 2) = 3 / 2"
  using fl_eqI [of 52 "3 / 2" 6755399441055744] by simp

lemma scrub_fl_10: "fl (9 / 4) = 9 / 4"
  using fl_eqI [of 51 "9 / 4" 5066549580791808] by simp

lemma scrub_fl_11: "fl (5 / 2) = 5 / 2"
  using fl_eqI [of 51 "5 / 2" 5629499534213120] by simp

lemma scrub_fl_12: "fl (27021597764222975 / 4503599627370496) = 6"
  using fl_eqI [of 50 "27021597764222975 / 4503599627370496" 6755399441055744] by simp

lemma scrub_fl_13: "fl (25 / 4) = 25 / 4"
  using fl_eqI [of 50 "25 / 4" 7036874417766400] by simp

lemma scrub_fl_14: "fl (15 / 2) = 15 / 2"
  using fl_eqI [of 50 "15 / 2" 8444249301319680] by simp

lemma scrub_fl_15: "fl (25 / 2) = 25 / 2"
  using fl_eqI [of 49 "25 / 2" 7036874417766400] by simp

lemma scrub_fl_16: "fl (450359962737049625 / 36028797018963968) = 25 / 2"
  using fl_eqI [of 49 "450359962737049625 / 36028797018963968" 7036874417766400] by simp

lemma scrub_fl_17: "fl (225 / 4) = 225 / 4"
  using fl_eqI [of 47 "225 / 4" 7916483719987200] by simp

lemma scrub_fl_18: "fl (625 / 4) = 625 / 4"
  using fl_eqI [of 45 "625 / 4" 5497558138880000] by simp

lemma scrub_sqrt_1: "fl (sqrt (25 / 4)) = 5 / 2"
  using fl_sqrt_eqI [of 51 "25 / 4" 5629499534213120] by simp

lemma scrub_sqrt_2: "fl (sqrt (36)) = 6"
  using fl_sqrt_eqI [of 50 "36" 6755399441055744] by simp

lemma scrub_sqrt_3: "fl (sqrt (225 / 4)) = 15 / 2"
  using fl_sqrt_eqI [of 50 "225 / 4" 8444249301319680] by simp

lemma scrub_sqrt_4: "fl (sqrt (64)) = 8"
  using fl_sqrt_eqI [of 49 "64" 4503599627370496] by simp

lemma scrub_sqrt_5: "fl (sqrt (100)) = 10"
  using fl_sqrt_eqI [of 49 "100" 5629499534213120] by simp

lemma scrub_sqrt_6: "fl (sqrt (625 / 4)) = 25 / 2"
  using fl_sqrt_eqI [of 49 "625 / 4" 7036874417766400] by simp

lemmas scrub_facts =
  scrub_fl_1 scrub_fl_2 scrub_fl_3 scrub_fl_4 scrub_fl_5 scrub_fl_6 scrub_fl_7 scrub_fl_8
  scrub_fl_9 scrub_fl_10 scrub_fl_11 scrub_fl_12 scrub_fl_13 scrub_fl_14 scrub_fl_15
  scrub_fl_16 scrub_fl_17 scrub_fl_18 scrub_sqrt_1 scrub_sqrt_2 scrub_sqrt_3 scrub_sqrt_4
  scrub_sqrt_5 scrub_sqrt_6

lemma mkPoint_sel: "px (mkPoint a b) = a" "py (mkPoint a b) = b"
  by (simp_all add: mkPoint_def)

lemma recorded_idle:
  "playingPaths recorded_app = {}" "playbackIndicators recorded_app = Map.empty"
  by (simp_all add: recorded_app_eq newMelodiaApp_def)

lemma touch_hit:
  "findPathAtPoint (pathManager recorded_app) (mkPoint 6 8) 15 = Some ''path-1''"
  by (simp add: findPathAtPoint_def recorded_paths isPointNearPath_def demo_path_def mkPoint_def
      distanceToLineSegment_def Let_def scrub_facts)

lemma touch_nearest:
  "paths pm = [(''path-1'', demo_path audio)] \<Longrightarrow>
     findNearestPointOnPath pm (mkPoint 6 8) ''path-1'' t =
       Inr (Some \<lparr>res_point = \<lparr>px = 6, py = 0, timestamp = t, pressure = None\<rparr>,
                  progress = fl (3 / 5)\<rparr>)"
  by (simp add: findNearestPointOnPath_def demo_path_def mkPoint_def calculatePathLength_def
      closestPointOnLineSegment_def distanceToPoint_def Let_def sqrt_100 scrub_facts)

lemma drift_nearest:
  "paths pm = [(''path-1'', demo_path audio)] \<Longrightarrow>
     findNearestPointOnPath pm (mkPoint (15 / 2) 10) ''path-1'' t =
       Inr (Some \<lparr>res_point = \<lparr>px = 15 / 2, py = 0, timestamp = t, pressure = None\<rparr>,
                  progress = 3 / 4\<rparr>)"
  by (simp add: findNearestPointOnPath_def demo_path_def mkPoint_def calculatePathLength_def
      closestPointOnLineSegment_def distanceToPoint_def Let_def sqrt_100 scrub_facts)

text \<open>
  The touch starts the loop, and the point it tracks is the nearest point of the path,
  (6,0), not the point (6,8) where the finger is.
\<close>

lemma touch_start:
  "handleInputStart recorded_app (inputAt 6 8) (envAt 3000 True None) =
     recorded_app
       \<lparr>audioEngine := createLoop (audioEngine recorded_app) [1, 2, 3] ''path-1''
                          (fl (3 / 5)) (fl (1 / 5)),
        activePlaybackPath := Some ''path-1'',
        lastPlaybackPoint := Some \<lparr>px = 6, py = 0, timestamp = 3000, pressure = None\<rparr>,
        lastPlaybackTime := 3000,
        isMoving := False,
        lastAudioPosition := fl (3 / 5),
        playingPaths := {''path-1''},
        playbackIndicators :=
          [''path-1'' \<mapsto> \<lparr>px = 6, py = 0, timestamp = 3000, pressure = None\<rparr>]\<rparr>"
  by (simp add: handleInputStart_def recorded_fields ev_point_inputAt touch_hit
      handlePathPlayback_def recorded_getPath demo_path_def demo_audio_def
      touch_nearest[OF recorded_paths] envAt_def recorded_idle Let_def scrub_facts)

lemma touched_fields:
  "isAppReady touched_app" "currentRecordingPath touched_app = None"
  "activePlaybackPath touched_app = Some ''path-1''"
  "lastPlaybackPoint touched_app = Some \<lparr>px = 6, py = 0, timestamp = 3000, pressure = None\<rparr>"
  "lastPlaybackTime touched_app = 3000" "isMoving touched_app = False"
  "lastAudioPosition touched_app = fl (3 / 5)"
  "pathManager touched_app = pathManager recorded_app"
  "calls (audioEngine touched_app) = [CreateLoop [1, 2, 3] ''path-1'' (fl (3 / 5)) (fl (1 / 5))]"
  by (simp_all add: touched_app_def touch_start recorded_fields createLoop_def)

text \<open>
  The first move event reports the position of the touch.  Its distance from the tracked
  point is 8, above the threshold: the gesture counts as moving.  The audio position has
  not changed, so nothing is played, and the tracked point becomes the finger's position.
\<close>

lemma still_move:
  "handleInputMove touched_app (inputAt 6 8) (envAt 3200 True None) =
     touched_app
       \<lparr>isMoving := True,
        playbackIndicators := (playbackIndicators touched_app)
          (''path-1'' \<mapsto> \<lparr>px = 6, py = 0, timestamp = 3200, pressure = None\<rparr>),
        lastPlaybackPoint := Some (mkPoint 6 8),
        lastPlaybackTime := 3200\<rparr>"
  by (simp add: handleInputMove_def touched_fields ev_point_inputAt handlePlaybackMove_def
      recorded_getPath demo_path_def demo_audio_def movementThreshold_def Let_def envAt_def
      touch_nearest[OF recorded_paths] mkPoint_sel scrub_facts)

lemma moving_fields:
  "isAppReady moving_app" "currentRecordingPath moving_app = None"
  "activePlaybackPath moving_app = Some ''path-1''"
  "lastPlaybackPoint moving_app = Some (mkPoint 6 8)"
  "lastPlaybackTime moving_app = 3200" "isMoving moving_app = True"
  "lastAudioPosition moving_app = fl (3 / 5)"
  "pathManager moving_app = pathManager recorded_app"
  "calls (audioEngine moving_app) = [CreateLoop [1, 2, 3] ''path-1'' (fl (3 / 5)) (fl (1 / 5))]"
  by (simp_all add: moving_app_def still_move touched_fields)

lemma small_move:
  "calls (audioEngine (handleInputMove moving_app (inputAt (15 / 2) 10) (envAt 3400 True None))) =
     [CreateLoop [1, 2, 3] ''path-1'' (fl (3 / 5)) (fl (1 / 5)),
      PlayAudioAtPosition [1, 2, 3] ''path-1'' (3 / 4) (1 / 2)]"
  by (simp add: handleInputMove_def moving_fields ev_point_inputAt handlePlaybackMove_def
      recorded_getPath demo_path_def demo_audio_def movementThreshold_def Let_def envAt_def
      drift_nearest[OF recorded_paths] mkPoint_sel playAudioAtPosition_def power2_eq_square
      scrub_facts)

text \<open>
  C9 fails on the sources.  \<^verbatim>\<open>handlePathPlayback\<close> stores the nearest point of the path as
  \<^verbatim>\<open>lastPlaybackPoint\<close>, and \<^verbatim>\<open>handlePlaybackMove\<close> measures the movement of the finger
  from that point, although it stores the position of the finger itself after each
  update.  The hit test accepts a touch up to 15 pixels from the path, so a touch more
  than 5 pixels from it counts as moving at its first move event.  On the recorded
  stroke, a touch at (6,8) enters Scrubbing; the two move events that follow are 0 and
  2.5 pixels from the touch, within the threshold of 5; and the engine receives, after
  the initial loop, a \<^verbatim>\<open>playAudioAtPosition\<close> call.
\<close>

theorem jitter_not_suppressed:
  "mode (handleInputStart recorded_app (inputAt 6 8) (envAt 3000 True None)) =
     Scrubbing ''path-1'' \<and>
   distanceToPoint (ev_point (inputAt 6 8)) (ev_point (inputAt 6 8)) = 0 \<and>
   distanceToPoint (ev_point (inputAt (15 / 2) 10)) (ev_point (inputAt 6 8)) = 5 / 2 \<and>
   5 / 2 \<le> movementThreshold \<and>
   playback_commands (audioEngine (foldl step recorded_app jitter_events)) =
     [CreateLoop [1, 2, 3] ''path-1'' (fl (3 / 5)) (fl (1 / 5)),
      PlayAudioAtPosition [1, 2, 3] ''path-1'' (3 / 4) (1 / 2)]"
proof -
  have m: "mode (handleInputStart recorded_app (inputAt 6 8) (envAt 3000 True None)) =
             Scrubbing ''path-1''"
    using touched_fields(2,3) by (simp add: mode_def touched_app_def)
  have d: "distanceToPoint (ev_point (inputAt 6 8)) (ev_point (inputAt 6 8)) = 0"
    "distanceToPoint (ev_point (inputAt (15 / 2) 10)) (ev_point (inputAt 6 8)) = 5 / 2"
    by (simp_all add: distanceToPoint_def ev_point_inputAt mkPoint_sel Let_def scrub_facts)
  have r: "foldl step recorded_app jitter_events =
             handleInputMove moving_app (inputAt (15 / 2) 10) (envAt 3400 True None)"
    by (simp add: jitter_events_def moving_app_def touched_app_def)
  have c: "playback_commands (audioEngine (foldl step recorded_app jitter_events)) =
             [CreateLoop [1, 2, 3] ''path-1'' (fl (3 / 5)) (fl (1 / 5)),
              PlayAudioAtPosition [1, 2, 3] ''path-1'' (3 / 4) (1 / 2)]"
    unfolding r playback_commands_def small_move by simp
  show ?thesis using m d c by (simp add: movementThreshold_def)
qed

end
